theory Spec2Isabelle
  imports Main "HOL-Library.Word"
begin

section \<open>Client-side encryption utilities (utils/encryption.js)\<close>

text \<open>
  The module keeps two module-level variables, \<open>signalManager\<close> and \<open>pendingMessages\<close>,
  and talks to four collaborators that are not part of it: the Signal protocol manager
  (the session engine), the socket, the browser window and the Web Crypto API.
  The model below keeps the module's variables in a state record, together with what
  the collaborators hold on the module's behalf: the listeners registered on the
  socket, the timers set with \<open>setTimeout\<close>, the promises created with
  \<open>new Promise\<close>, the frames emitted on the socket and the events dispatched on the
  window. The session engine, \<open>JSON.stringify\<close> and \<open>JSON.parse\<close> are parameters.

  JavaScript runs one handler at a time. Each function of the module is modelled as
  one state transformer: an \<open>await\<close> on the session engine is taken to complete
  before the next socket frame or timer is handled. The listener of line 104 is given
  in its parts as well, for what a timer does between them.
\<close>

subsection \<open>Values\<close>

type_synonym userId = string

type_synonym channelId = string

type_synonym messageId = string

type_synonym requestId = string

type_synonym ciphertext = string

type_synonym keyBundle = string

type_synonym publicKeys = string

text \<open>
  A thrown value. \<open>JsError msg\<close> is a value whose \<open>message\<close> property is the string
  \<open>msg\<close>, as that of every \<open>Error\<close> object is. \<open>Other_value v\<close> is any other
  value (\<open>undefined\<close>, a string, an object without a string \<open>message\<close>), named by
  how it prints.
\<close>

datatype js_error = JsError string | Other_value string

text \<open>Frames the module emits with \<open>socket.emit\<close>.\<close>

datatype out_frame =
    Register_public_keys publicKeys
  | Request_pre_key_bundle userId "requestId option"
  | Message_decrypted messageId

text \<open>
  Frames the socket delivers: \<open>pre-key-bundle-<requestId>\<close> with \<open>{bundle}\<close>,
  \<open>new-pre-key-bundle\<close> with \<open>{userId, bundle}\<close> and \<open>encrypted-message\<close> with
  \<open>{senderId, channelId, encryptedMessage, messageId}\<close>.
\<close>

datatype in_frame =
    Pre_key_bundle requestId keyBundle
  | New_pre_key_bundle userId keyBundle
  | Encrypted_message userId channelId ciphertext messageId

text \<open>The settled state of a promise created at line 89.\<close>

datatype outcome = Resolved ciphertext | Rejected js_error

text \<open>
  An entry of \<open>pendingMessages\<close> (lines 93-98). The \<open>resolve\<close> and \<open>reject\<close>
  functions it stores belong to one promise, named here by its index.
\<close>

record 'c pending_message =
  pm_recipientId :: userId
  pm_content :: 'c
  pm_promise :: nat

text \<open>The \<open>detail\<close> of the \<open>message-decrypted\<close> window event (lines 34-41).\<close>

record 'c decrypt_event =
  ev_messageId :: messageId
  ev_senderId :: userId
  ev_channelId :: channelId
  ev_content :: 'c

text \<open>
  The closures registered on the socket: the two of \<open>initializeEncryption\<close>
  (\<open>socket.on\<close>, lines 23 and 27) and the one of \<open>encryptMessage\<close>
  (\<open>socket.once\<close>, line 104). The last one captures \<open>recipientId\<close> and
  \<open>requestId\<close>; \<open>requestId\<close> is computed at line 90 from \<open>recipientId\<close> and the
  reading of \<open>Date.now()\<close>, so the closure is kept as that pair.
\<close>

datatype listener =
    On_new_pre_key_bundle
  | On_encrypted_message
  | Once_pre_key_bundle userId nat

text \<open>What an \<open>async\<close> function hands to its caller.\<close>

datatype 'a completion =
    Returned 'a
  | Thrown js_error
  | Awaiting nat

subsection \<open>Collaborators\<close>

text \<open>
  The \<open>SignalProtocolManager\<close> class is imported from \<open>./signalProtocol\<close>; its
  methods are parameters here. Each takes the manager's state and returns its result
  (\<open>Inl\<close> for a thrown error) with the manager's state afterwards.
\<close>

record ('s, 'c) collaborators =
  sm_new :: "userId \<Rightarrow> 's"
  sm_initializeIdentity :: "'s \<Rightarrow> (js_error + unit) \<times> 's"
  sm_getPublicKeys :: "'s \<Rightarrow> (js_error + publicKeys) \<times> 's"
  sm_processPreKeyBundle :: "'s \<Rightarrow> userId \<Rightarrow> keyBundle \<Rightarrow> (js_error + unit) \<times> 's"
  sm_encryptMessage :: "'s \<Rightarrow> userId \<Rightarrow> string \<Rightarrow> (js_error + ciphertext) \<times> 's"
  sm_decryptMessage :: "'s \<Rightarrow> userId \<Rightarrow> ciphertext \<Rightarrow> (js_error + string) \<times> 's"
  json_stringify :: "'c \<Rightarrow> js_error + string"
  json_parse :: "string \<Rightarrow> js_error + 'c"

subsection \<open>State\<close>

record ('s, 'c) state =
  signalManager :: "'s option"
  pendingMessages :: "requestId \<rightharpoonup> 'c pending_message"
  listeners :: "listener list"
  timers :: "(nat \<times> requestId) list"
  clock :: nat
  promises :: "outcome option list"
  emitted :: "out_frame list"
  dispatched :: "'c decrypt_event list"

definition initial_state :: "('s, 'c) state" where
  "initial_state =
     \<lparr>signalManager = None, pendingMessages = Map.empty, listeners = [], timers = [],
      clock = 0, promises = [], emitted = [], dispatched = []\<rparr>"

subsection \<open>Strings\<close>

text \<open>\<open>String.prototype.includes\<close>: the argument occurs somewhere in the string.\<close>

fun starts_with :: "string \<Rightarrow> string \<Rightarrow> bool" where
  "starts_with s [] = True"
| "starts_with [] (c # cs) = False"
| "starts_with (x # xs) (c # cs) = (x = c \<and> starts_with xs cs)"

fun str_includes :: "string \<Rightarrow> string \<Rightarrow> bool" where
  "str_includes [] sub = starts_with [] sub"
| "str_includes (x # xs) sub = (starts_with (x # xs) sub \<or> str_includes xs sub)"

text \<open>The decimal digits of a number, as a template literal prints \<open>Date.now()\<close>.\<close>

definition digit_char :: "nat \<Rightarrow> char" where
  "digit_char d = ''0123456789'' ! d"

fun decimal :: "nat \<Rightarrow> string" where
  "decimal n = (if n < 10 then [digit_char n] else decimal (n div 10) @ [digit_char (n mod 10)])"

declare decimal.simps [simp del]

text \<open>Line 90: \<open>`${recipientId}-${Date.now()}`\<close>.\<close>

definition request_id :: "userId \<Rightarrow> nat \<Rightarrow> requestId" where
  "request_id recipientId now = recipientId @ ''-'' @ decimal now"

text \<open>Line 104: \<open>`pre-key-bundle-${requestId}`\<close>.\<close>

definition bundle_event :: "requestId \<Rightarrow> string" where
  "bundle_event requestId = ''pre-key-bundle-'' @ requestId"

fun listener_event :: "listener \<Rightarrow> string" where
  "listener_event On_new_pre_key_bundle = ''new-pre-key-bundle''"
| "listener_event On_encrypted_message = ''encrypted-message''"
| "listener_event (Once_pre_key_bundle recipientId now) = bundle_event (request_id recipientId now)"

fun is_once :: "listener \<Rightarrow> bool" where
  "is_once (Once_pre_key_bundle recipientId now) = True"
| "is_once l = False"

fun frame_event :: "in_frame \<Rightarrow> string" where
  "frame_event (Pre_key_bundle requestId b) = bundle_event requestId"
| "frame_event (New_pre_key_bundle u b) = ''new-pre-key-bundle''"
| "frame_event (Encrypted_message u c m i) = ''encrypted-message''"

subsection \<open>Promises, socket, window\<close>

text \<open>
  \<open>new Promise\<close> creates an unsettled promise. Calling \<open>resolve\<close> or \<open>reject\<close>
  settles it the first time and does nothing afterwards.
\<close>

definition new_promise :: "('s, 'c) state \<Rightarrow> nat \<times> ('s, 'c) state" where
  "new_promise s = (length (promises s), s\<lparr>promises := promises s @ [None]\<rparr>)"

definition settle :: "nat \<Rightarrow> outcome \<Rightarrow> ('s, 'c) state \<Rightarrow> ('s, 'c) state" where
  "settle p out s =
     (if p < length (promises s) \<and> promises s ! p = None
      then s\<lparr>promises := (promises s)[p := Some out]\<rparr> else s)"

definition promise_state :: "('s, 'c) state \<Rightarrow> nat \<Rightarrow> outcome option" where
  "promise_state s p = (if p < length (promises s) then promises s ! p else None)"

definition socket_emit :: "out_frame \<Rightarrow> ('s, 'c) state \<Rightarrow> ('s, 'c) state" where
  "socket_emit f s = s\<lparr>emitted := emitted s @ [f]\<rparr>"

definition dispatchEvent :: "'c decrypt_event \<Rightarrow> ('s, 'c) state \<Rightarrow> ('s, 'c) state" where
  "dispatchEvent ev s = s\<lparr>dispatched := dispatched s @ [ev]\<rparr>"

definition pending_delete :: "requestId \<Rightarrow> ('s, 'c) state \<Rightarrow> ('s, 'c) state" where
  "pending_delete requestId s = s\<lparr>pendingMessages := (pendingMessages s)(requestId := None)\<rparr>"

text \<open>
  A method call on \<open>signalManager\<close>. While the variable is \<open>null\<close> the call throws a
  \<open>TypeError\<close>.
\<close>

definition null_manager :: js_error where
  "null_manager = JsError ''Cannot read properties of null''"

definition call_manager ::
  "('s \<Rightarrow> (js_error + 'a) \<times> 's) \<Rightarrow> ('s, 'c) state \<Rightarrow> (js_error + 'a) \<times> ('s, 'c) state" where
  "call_manager method s =
     (case signalManager s of
        None \<Rightarrow> (Inl null_manager, s)
      | Some m \<Rightarrow> (case method m of (r, m') \<Rightarrow> (r, s\<lparr>signalManager := Some m'\<rparr>)))"

subsection \<open>encryptMessage (lines 77-142)\<close>

definition timeout_error :: js_error where
  "timeout_error = JsError ''Timeout requesting pre-key bundle''"

text \<open>
  Line 88 calls \<open>includes\<close> on the \<open>message\<close> of whatever was caught. On a value
  without a string \<open>message\<close> that call throws a \<open>TypeError\<close>.
\<close>

definition not_a_string :: js_error where
  "not_a_string = JsError ''Cannot read properties of undefined''"

text \<open>
  The \<open>catch\<close> block, lines 86-141. It receives what \<open>JSON.stringify\<close> (line 83) or
  the session engine (line 84) has thrown.
\<close>

definition encrypt_catch ::
  "userId \<Rightarrow> 'c \<Rightarrow> js_error \<Rightarrow> ('s, 'c) state \<Rightarrow> ciphertext completion \<times> ('s, 'c) state" where
  "encrypt_catch recipientId content error s =
     (case error of
        Other_value v \<Rightarrow> (Thrown not_a_string, s)
      | JsError msg \<Rightarrow>
         (if str_includes msg ''No session'' then
            (case new_promise s of (p, s1) \<Rightarrow>
               let requestId = request_id recipientId (clock s1);
                   s2 = s1\<lparr>pendingMessages := (pendingMessages s1)(requestId \<mapsto>
                          \<lparr>pm_recipientId = recipientId, pm_content = content, pm_promise = p\<rparr>)\<rparr>;
                   s3 = socket_emit (Request_pre_key_bundle recipientId (Some requestId)) s2;
                   s4 = s3\<lparr>listeners := listeners s3 @ [Once_pre_key_bundle recipientId (clock s3)]\<rparr>;
                   s5 = s4\<lparr>timers := timers s4 @ [(clock s4 + 10000, requestId)]\<rparr>
               in (Awaiting p, s5))
          else (Thrown error, s)))"

definition encryptMessage ::
  "('s, 'c) collaborators \<Rightarrow> userId \<Rightarrow> 'c \<Rightarrow> ('s, 'c) state \<Rightarrow>
     ciphertext completion \<times> ('s, 'c) state" where
  "encryptMessage env recipientId content s =
     (case signalManager s of
        None \<Rightarrow> (Thrown (JsError ''Encryption not initialized''), s)
      | Some m \<Rightarrow>
         (case json_stringify env content of
            Inl error \<Rightarrow> encrypt_catch recipientId content error s
          | Inr contentString \<Rightarrow>
             (case call_manager (\<lambda>m. sm_encryptMessage env m recipientId contentString) s of
                (Inr encryptedMessage, s1) \<Rightarrow> (Returned encryptedMessage, s1)
              | (Inl error, s1) \<Rightarrow> encrypt_catch recipientId content error s1)))"

text \<open>The \<open>catch\<close> block of the one-time listener, lines 120-126.\<close>

definition bundle_catch :: "requestId \<Rightarrow> js_error \<Rightarrow> ('s, 'c) state \<Rightarrow> ('s, 'c) state" where
  "bundle_catch requestId error s =
     (case pendingMessages s requestId of
        None \<Rightarrow> s
      | Some pendingMessage \<Rightarrow>
          pending_delete requestId (settle (pm_promise pendingMessage) (Rejected error) s))"

text \<open>The one-time listener for the pre-key bundle response, lines 104-127.\<close>

definition on_pre_key_bundle ::
  "('s, 'c) collaborators \<Rightarrow> userId \<Rightarrow> requestId \<Rightarrow> keyBundle \<Rightarrow> ('s, 'c) state \<Rightarrow> ('s, 'c) state" where
  "on_pre_key_bundle env recipientId requestId b s =
     (case call_manager (\<lambda>m. sm_processPreKeyBundle env m recipientId b) s of
        (Inl error, s1) \<Rightarrow> bundle_catch requestId error s1
      | (Inr u, s1) \<Rightarrow>
         (case pendingMessages s1 requestId of
            None \<Rightarrow> s1
          | Some pendingMessage \<Rightarrow>
             (case json_stringify env (pm_content pendingMessage) of
                Inl error \<Rightarrow> bundle_catch requestId error s1
              | Inr contentString \<Rightarrow>
                 (case call_manager (\<lambda>m. sm_encryptMessage env m recipientId contentString) s1 of
                    (Inl error, s2) \<Rightarrow> bundle_catch requestId error s2
                  | (Inr encryptedMessage, s2) \<Rightarrow>
                      pending_delete requestId
                        (settle (pm_promise pendingMessage) (Resolved encryptedMessage) s2)))))"

text \<open>
  The listener waits twice: at line 107 for \<open>processPreKeyBundle\<close> and at line 114 for
  \<open>encryptMessage\<close>. Its three parts, each of which runs without interruption, are
  given next: \<open>on_pre_key_bundle\<close> is the three run one after the other with nothing
  in between (lemma \<open>on_pre_key_bundle_parts\<close>). A method of the engine is taken to
  act when it is called; what it returns reaches the listener when the listener goes on.

  Lines 104-107: the listener is called and calls \<open>processPreKeyBundle\<close>.
\<close>

definition bundle_received ::
  "('s, 'c) collaborators \<Rightarrow> userId \<Rightarrow> keyBundle \<Rightarrow> ('s, 'c) state \<Rightarrow>
     (js_error + unit) \<times> ('s, 'c) state" where
  "bundle_received env recipientId b s =
     call_manager (\<lambda>m. sm_processPreKeyBundle env m recipientId b) s"

text \<open>
  Lines 107-114: the listener goes on with the outcome of \<open>processPreKeyBundle\<close>. It
  ends there (\<open>None\<close>), or it has found the pending entry and called
  \<open>encryptMessage\<close>, and waits with both.
\<close>

definition bundle_processed ::
  "('s, 'c) collaborators \<Rightarrow> userId \<Rightarrow> requestId \<Rightarrow> js_error + unit \<Rightarrow> ('s, 'c) state \<Rightarrow>
     ('c pending_message \<times> (js_error + ciphertext)) option \<times> ('s, 'c) state" where
  "bundle_processed env recipientId requestId processed s =
     (case processed of
        Inl error \<Rightarrow> (None, bundle_catch requestId error s)
      | Inr u \<Rightarrow>
         (case pendingMessages s requestId of
            None \<Rightarrow> (None, s)
          | Some pendingMessage \<Rightarrow>
             (case json_stringify env (pm_content pendingMessage) of
                Inl error \<Rightarrow> (None, bundle_catch requestId error s)
              | Inr contentString \<Rightarrow>
                 (case call_manager (\<lambda>m. sm_encryptMessage env m recipientId contentString) s of
                    (encrypted, s1) \<Rightarrow> (Some (pendingMessage, encrypted), s1)))))"

text \<open>
  Lines 114-126: the listener goes on with the outcome of \<open>encryptMessage\<close> and the
  entry it had found at line 110.
\<close>

definition bundle_encrypted ::
  "requestId \<Rightarrow> 'c pending_message \<Rightarrow> js_error + ciphertext \<Rightarrow> ('s, 'c) state \<Rightarrow> ('s, 'c) state" where
  "bundle_encrypted requestId pendingMessage encrypted s =
     (case encrypted of
        Inl error \<Rightarrow> bundle_catch requestId error s
      | Inr encryptedMessage \<Rightarrow>
          pending_delete requestId
            (settle (pm_promise pendingMessage) (Resolved encryptedMessage) s))"

text \<open>The timeout callback, lines 130-136.\<close>

definition on_timeout :: "requestId \<Rightarrow> ('s, 'c) state \<Rightarrow> ('s, 'c) state" where
  "on_timeout requestId s =
     (case pendingMessages s requestId of
        None \<Rightarrow> s
      | Some pendingMessage \<Rightarrow>
          pending_delete requestId (settle (pm_promise pendingMessage) (Rejected timeout_error) s))"

subsection \<open>The listeners of initializeEncryption (lines 23-51)\<close>

text \<open>Lines 23-25. A rejection of \<open>processPreKeyBundle\<close> is not caught by anyone.\<close>

definition on_new_pre_key_bundle ::
  "('s, 'c) collaborators \<Rightarrow> userId \<Rightarrow> keyBundle \<Rightarrow> ('s, 'c) state \<Rightarrow> ('s, 'c) state" where
  "on_new_pre_key_bundle env userId b s =
     snd (call_manager (\<lambda>m. sm_processPreKeyBundle env m userId b) s)"

text \<open>Lines 27-51.\<close>

definition on_encrypted_message ::
  "('s, 'c) collaborators \<Rightarrow> userId \<Rightarrow> channelId \<Rightarrow> ciphertext \<Rightarrow> messageId \<Rightarrow>
     ('s, 'c) state \<Rightarrow> ('s, 'c) state" where
  "on_encrypted_message env senderId channelId encryptedMessage messageId s =
     (case call_manager (\<lambda>m. sm_decryptMessage env m senderId encryptedMessage) s of
        (Inl error, s1) \<Rightarrow> socket_emit (Request_pre_key_bundle senderId None) s1
      | (Inr decryptedContent, s1) \<Rightarrow>
         (case json_parse env decryptedContent of
            Inl error \<Rightarrow> socket_emit (Request_pre_key_bundle senderId None) s1
          | Inr content \<Rightarrow>
              socket_emit (Message_decrypted messageId)
                (dispatchEvent
                   \<lparr>ev_messageId = messageId, ev_senderId = senderId,
                    ev_channelId = channelId, ev_content = content\<rparr> s1)))"

subsection \<open>The socket and the timers\<close>

text \<open>
  A listener is called with the data of a frame of its own event. The last equation
  is never reached from \<open>socket_receive\<close>, which selects listeners by event name.
\<close>

fun run_listener ::
  "('s, 'c) collaborators \<Rightarrow> in_frame \<Rightarrow> listener \<Rightarrow> ('s, 'c) state \<Rightarrow> ('s, 'c) state" where
  "run_listener env (Pre_key_bundle q b) (Once_pre_key_bundle recipientId now) s =
     on_pre_key_bundle env recipientId (request_id recipientId now) b s"
| "run_listener env (New_pre_key_bundle userId b) On_new_pre_key_bundle s =
     on_new_pre_key_bundle env userId b s"
| "run_listener env (Encrypted_message senderId channelId encryptedMessage messageId)
     On_encrypted_message s =
     on_encrypted_message env senderId channelId encryptedMessage messageId s"
| "run_listener env frame l s = s"

text \<open>
  The socket receives a frame: the listeners of its event are called in the order of
  their registration, and those registered with \<open>once\<close> are removed.
\<close>

definition socket_receive ::
  "('s, 'c) collaborators \<Rightarrow> in_frame \<Rightarrow> ('s, 'c) state \<Rightarrow> ('s, 'c) state" where
  "socket_receive env frame s =
     (let called = filter (\<lambda>l. listener_event l = frame_event frame) (listeners s);
          kept = filter (\<lambda>l. \<not> (is_once l \<and> listener_event l = frame_event frame)) (listeners s)
      in fold (run_listener env frame) called (s\<lparr>listeners := kept\<rparr>))"

text \<open>
  Time passes up to \<open>t\<close>: the timers that are due run, earliest first, and are
  removed.
\<close>

definition advance_clock :: "nat \<Rightarrow> ('s, 'c) state \<Rightarrow> ('s, 'c) state" where
  "advance_clock t s =
     (if t \<le> clock s then s
      else
        let due = sort_key fst (filter (\<lambda>(d, q). d \<le> t) (timers s));
            kept = filter (\<lambda>(d, q). \<not> d \<le> t) (timers s)
        in fold (\<lambda>(d, q). on_timeout q) due (s\<lparr>timers := kept, clock := t\<rparr>))"

subsection \<open>initializeEncryption (lines 14-52) and registerPublicKeys (lines 59-69)\<close>

text \<open>
  The server's acknowledgement of \<open>register-public-keys\<close>: \<open>{success, error}\<close>, or
  none at all, in which case the promise of \<open>registerPublicKeys\<close> stays unsettled.
\<close>

record ack_response =
  ack_success :: bool
  ack_error :: string

datatype init_result = Init_done | Init_thrown js_error | Init_waiting

definition initializeEncryption ::
  "('s, 'c) collaborators \<Rightarrow> userId \<Rightarrow> ack_response option \<Rightarrow> ('s, 'c) state \<Rightarrow>
     init_result \<times> ('s, 'c) state" where
  "initializeEncryption env userId ack s =
     (let s0 = s\<lparr>signalManager := Some (sm_new env userId)\<rparr> in
      case call_manager (sm_initializeIdentity env) s0 of
        (Inl error, s1) \<Rightarrow> (Init_thrown error, s1)
      | (Inr u, s1) \<Rightarrow>
         (case call_manager (sm_getPublicKeys env) s1 of
            (Inl error, s2) \<Rightarrow> (Init_thrown error, s2)
          | (Inr publicKeys, s2) \<Rightarrow>
             (let s3 = socket_emit (Register_public_keys publicKeys) s2 in
              case ack of
                None \<Rightarrow> (Init_waiting, s3)
              | Some response \<Rightarrow>
                  if ack_success response then
                    (Init_done,
                     s3\<lparr>listeners := listeners s3 @ [On_new_pre_key_bundle, On_encrypted_message]\<rparr>)
                  else (Init_thrown (JsError (ack_error response)), s3))))"

subsection \<open>Reading a request id back\<close>

text \<open>The number a string of decimal digits denotes, used to show that request ids
  of different clock readings differ.\<close>

fun digit_value :: "char \<Rightarrow> nat" where
  "digit_value c = of_char c - 48"

definition decimal_value :: "string \<Rightarrow> nat" where
  "decimal_value cs = foldl (\<lambda>a c. 10 * a + digit_value c) 0 cs"

section \<open>File encryption: encryptFile and decryptFile (lines 150-218)\<close>

text \<open>
  \<open>encryptFile\<close> and \<open>decryptFile\<close> call the Web Crypto API. Its AES-GCM cipher is
  a parameter; key generation, import and export, random values and the usage checks
  of \<open>encrypt\<close> and \<open>decrypt\<close> are written out. Random bytes are read from a
  stream, which each function that draws from it returns advanced.
\<close>

type_synonym byte = "8 word"

type_synonym entropy = "nat \<Rightarrow> byte"

datatype dom_exception = OperationError | DataError | InvalidAccessError

datatype key_usage = Encrypt | Decrypt

record crypto_key =
  key_bytes :: "byte list"
  key_extractable :: bool
  key_usages :: "key_usage list"

record blob =
  blob_data :: "byte list"
  blob_type :: string

text \<open>
  A \<open>File\<close>: its \<open>size\<close> is the number of its bytes. Reading it can fail, when the
  file behind it has been removed or is no longer accessible; \<open>file_readable\<close> says
  whether a \<open>FileReader\<close> gets to its \<open>load\<close> event.
\<close>

record js_file =
  file_name :: string
  file_type :: string
  file_data :: "byte list"
  file_readable :: bool

definition file_size :: "js_file \<Rightarrow> nat" where
  "file_size file = length (file_data file)"

text \<open>The object returned at lines 179-187.\<close>

record encrypted_file_package =
  pkg_encryptedFile :: blob
  pkg_fileName :: string
  pkg_fileType :: string
  pkg_fileSize :: nat
  pkg_key :: "byte list"
  pkg_iv :: "byte list"
  pkg_channelId :: channelId

text \<open>
  AES-GCM on raw bytes: key, initialisation vector, data. Decryption of a text whose
  authentication tag does not match gives \<open>None\<close>.
\<close>

record aes_gcm =
  gcm_encrypt :: "byte list \<Rightarrow> byte list \<Rightarrow> byte list \<Rightarrow> byte list"
  gcm_decrypt :: "byte list \<Rightarrow> byte list \<Rightarrow> byte list \<Rightarrow> byte list option"

definition take_random :: "nat \<Rightarrow> entropy \<Rightarrow> byte list \<times> entropy" where
  "take_random n rnd = (map rnd [0..<n], (\<lambda>i. rnd (i + n)))"

text \<open>\<open>crypto.subtle.generateKey({name: 'AES-GCM', length}, extractable, usages)\<close>.\<close>

definition generateKey ::
  "nat \<Rightarrow> bool \<Rightarrow> key_usage list \<Rightarrow> entropy \<Rightarrow> crypto_key \<times> entropy" where
  "generateKey len extractable usages rnd =
     (case take_random (len div 8) rnd of
        (raw, rnd') \<Rightarrow>
          (\<lparr>key_bytes = raw, key_extractable = extractable, key_usages = usages\<rparr>, rnd'))"

text \<open>\<open>crypto.subtle.exportKey('raw', key)\<close>.\<close>

definition exportKey :: "crypto_key \<Rightarrow> dom_exception + byte list" where
  "exportKey k = (if key_extractable k then Inr (key_bytes k) else Inl InvalidAccessError)"

text \<open>\<open>crypto.subtle.importKey('raw', data, {name: 'AES-GCM'}, extractable, usages)\<close>:
  an AES key has 128, 192 or 256 bits.\<close>

definition importKey ::
  "byte list \<Rightarrow> bool \<Rightarrow> key_usage list \<Rightarrow> dom_exception + crypto_key" where
  "importKey raw extractable usages =
     (if length raw = 16 \<or> length raw = 24 \<or> length raw = 32
      then Inr \<lparr>key_bytes = raw, key_extractable = extractable, key_usages = usages\<rparr>
      else Inl DataError)"

text \<open>\<open>crypto.getRandomValues(new Uint8Array(n))\<close>.\<close>

definition getRandomValues :: "nat \<Rightarrow> entropy \<Rightarrow> byte list \<times> entropy" where
  "getRandomValues n rnd = take_random n rnd"

text \<open>\<open>crypto.subtle.encrypt({name: 'AES-GCM', iv}, key, data)\<close>.\<close>

definition subtle_encrypt ::
  "aes_gcm \<Rightarrow> byte list \<Rightarrow> crypto_key \<Rightarrow> byte list \<Rightarrow> dom_exception + byte list" where
  "subtle_encrypt gcm iv k data =
     (if Encrypt \<in> set (key_usages k) then Inr (gcm_encrypt gcm (key_bytes k) iv data)
      else Inl InvalidAccessError)"

text \<open>\<open>crypto.subtle.decrypt({name: 'AES-GCM', iv}, key, data)\<close>.\<close>

definition subtle_decrypt ::
  "aes_gcm \<Rightarrow> byte list \<Rightarrow> crypto_key \<Rightarrow> byte list \<Rightarrow> dom_exception + byte list" where
  "subtle_decrypt gcm iv k data =
     (if Decrypt \<in> set (key_usages k) then
        (case gcm_decrypt gcm (key_bytes k) iv data of
           None \<Rightarrow> Inl OperationError
         | Some plain \<Rightarrow> Inr plain)
      else Inl InvalidAccessError)"

text \<open>
  Lines 162-166: the promise around the \<open>FileReader\<close> resolves in \<open>onload\<close> with the
  bytes read. No other handler is set and nothing rejects it, so when the read fails
  the promise stays unsettled: \<open>None\<close>.
\<close>

definition readAsArrayBuffer :: "js_file \<Rightarrow> byte list option" where
  "readAsArrayBuffer file = (if file_readable file then Some (file_data file) else None)"

text \<open>
  How a call of \<open>encryptFile\<close> ends when it does not return a package: its promise is
  rejected with an exception of the Web Crypto API, or it is never settled.
\<close>

datatype file_failure = Rejected_with dom_exception | Never_settles

text \<open>Lines 150-188.\<close>

definition encryptFile ::
  "aes_gcm \<Rightarrow> js_file \<Rightarrow> channelId \<Rightarrow> entropy \<Rightarrow>
     (file_failure + encrypted_file_package) \<times> entropy" where
  "encryptFile gcm file channelId rnd =
     (case generateKey 256 True [Encrypt, Decrypt] rnd of
        (k, rnd1) \<Rightarrow>
          (case exportKey k of
             Inl e \<Rightarrow> (Inl (Rejected_with e), rnd1)
           | Inr exportedKey \<Rightarrow>
               (case readAsArrayBuffer file of
                  None \<Rightarrow> (Inl Never_settles, rnd1)
                | Some fileBuffer \<Rightarrow>
                    (case getRandomValues 12 rnd1 of
                       (iv, rnd2) \<Rightarrow>
                         (case subtle_encrypt gcm iv k fileBuffer of
                            Inl e \<Rightarrow> (Inl (Rejected_with e), rnd2)
                          | Inr encryptedFile \<Rightarrow>
                              (Inr \<lparr>pkg_encryptedFile =
                                      \<lparr>blob_data = encryptedFile,
                                       blob_type = ''application/octet-stream''\<rparr>,
                                    pkg_fileName = file_name file,
                                    pkg_fileType = file_type file,
                                    pkg_fileSize = file_size file,
                                    pkg_key = exportedKey,
                                    pkg_iv = iv,
                                    pkg_channelId = channelId\<rparr>, rnd2))))))"

text \<open>Lines 196-218.\<close>

definition decryptFile ::
  "aes_gcm \<Rightarrow> encrypted_file_package \<Rightarrow> byte list \<Rightarrow> dom_exception + blob" where
  "decryptFile gcm fileData decryptedKey =
     (case importKey decryptedKey False [Decrypt] of
        Inl e \<Rightarrow> Inl e
      | Inr k \<Rightarrow>
          (let encryptedBuffer = blob_data (pkg_encryptedFile fileData) in
           case subtle_decrypt gcm (pkg_iv fileData) k encryptedBuffer of
             Inl e \<Rightarrow> Inl e
           | Inr decryptedBuffer \<Rightarrow>
               Inr \<lparr>blob_data = decryptedBuffer, blob_type = pkg_fileType fileData\<rparr>))"

text \<open>The ciphertext of a package with the byte at index \<open>i\<close> replaced.\<close>

definition tamper :: "nat \<Rightarrow> byte \<Rightarrow> encrypted_file_package \<Rightarrow> encrypted_file_package" where
  "tamper i b fileData =
     fileData\<lparr>pkg_encryptedFile :=
       (pkg_encryptedFile fileData)\<lparr>blob_data := (blob_data (pkg_encryptedFile fileData))[i := b]\<rparr>\<rparr>"

section \<open>Entering the module\<close>

text \<open>
  Between two handlers the module is entered in one of three ways: a caller calls
  \<open>encryptMessage\<close>, the socket receives a frame, or time passes and timers run.
\<close>

datatype 'c entry_point =
    Call_encryptMessage userId 'c
  | Frame_arrives in_frame
  | Time_passes nat

fun enter ::
  "('s, 'c) collaborators \<Rightarrow> 'c entry_point \<Rightarrow> ('s, 'c) state \<Rightarrow> ('s, 'c) state" where
  "enter env (Call_encryptMessage recipientId content) s =
     snd (encryptMessage env recipientId content s)"
| "enter env (Frame_arrives frame) s = socket_receive env frame s"
| "enter env (Time_passes t) s = advance_clock t s"

text \<open>
  A promise is unreferenced when it is unsettled and no entry of \<open>pendingMessages\<close>
  holds its \<open>resolve\<close> and \<open>reject\<close>.
\<close>

definition unreferenced :: "nat \<Rightarrow> ('s, 'c) state \<Rightarrow> bool" where
  "unreferenced p s \<longleftrightarrow>
     p < length (promises s) \<and> promise_state s p = None \<and>
     (\<forall>q pm. pendingMessages s q = Some pm \<longrightarrow> pm_promise pm \<noteq> p)"

section \<open>A small session engine for evaluating the model\<close>

text \<open>
  The engine below stands in for \<open>SignalProtocolManager\<close> where a statement is
  evaluated on concrete input. Its state is the list of peers it has a session with;
  contents are strings, serialised as they are.
\<close>

definition test_encrypt ::
  "userId list \<Rightarrow> userId \<Rightarrow> string \<Rightarrow> (js_error + ciphertext) \<times> userId list" where
  "test_encrypt m u str =
     (if u \<in> set m
      then (if str = [] then (Inl (JsError ''Empty message''), m) else (Inr (''enc:'' @ str), m))
      else (Inl (JsError (''No session for '' @ u)), m))"

definition test_process ::
  "userId list \<Rightarrow> userId \<Rightarrow> keyBundle \<Rightarrow> (js_error + unit) \<times> userId list" where
  "test_process m u b =
     (if b = [] then (Inl (JsError ''Invalid bundle''), m) else (Inr (), u # m))"

definition test_decrypt ::
  "userId list \<Rightarrow> userId \<Rightarrow> ciphertext \<Rightarrow> (js_error + string) \<times> userId list" where
  "test_decrypt m u c =
     (if starts_with c ''enc:'' then (Inr (drop 4 c), m) else (Inl (JsError ''Bad MAC''), m))"

definition test_parse :: "string \<Rightarrow> js_error + string" where
  "test_parse str =
     (if starts_with str ''{'' then Inr str else Inl (JsError ''Unexpected token''))"

definition test_env :: "(userId list, string) collaborators" where
  "test_env =
     \<lparr>sm_new = (\<lambda>u. []), sm_initializeIdentity = (\<lambda>m. (Inr (), m)),
      sm_getPublicKeys = (\<lambda>m. (Inr ''keys'', m)), sm_processPreKeyBundle = test_process,
      sm_encryptMessage = test_encrypt, sm_decryptMessage = test_decrypt,
      json_stringify = Inr, json_parse = test_parse\<rparr>"

text \<open>The state after \<open>initializeEncryption\<close> has completed for user \<open>me\<close>.\<close>

definition ready :: "(userId list, string) state" where
  "ready =
     \<lparr>signalManager = Some [], pendingMessages = Map.empty,
      listeners = [On_new_pre_key_bundle, On_encrypted_message], timers = [],
      clock = 0, promises = [], emitted = [Register_public_keys ''keys''], dispatched = []\<rparr>"

section \<open>A small cipher and file for evaluating the model\<close>

text \<open>
  The cipher below stands in for AES-GCM where a statement is evaluated on concrete
  input: it appends a checksum of key, initialisation vector and data as the tag.
\<close>

definition test_gcm_encrypt :: "byte list \<Rightarrow> byte list \<Rightarrow> byte list \<Rightarrow> byte list" where
  "test_gcm_encrypt k iv plain = plain @ [sum_list (k @ iv @ plain)]"

definition test_gcm_decrypt :: "byte list \<Rightarrow> byte list \<Rightarrow> byte list \<Rightarrow> byte list option" where
  "test_gcm_decrypt k iv c =
     (if c = [] then None
      else if last c = sum_list (k @ iv @ butlast c) then Some (butlast c) else None)"

definition test_gcm :: aes_gcm where
  "test_gcm = \<lparr>gcm_encrypt = test_gcm_encrypt, gcm_decrypt = test_gcm_decrypt\<rparr>"

definition test_file :: js_file where
  "test_file =
     \<lparr>file_name = ''a.txt'', file_type = ''text/plain'', file_data = [104, 105],
      file_readable = True\<rparr>"

definition test_entropy :: entropy where
  "test_entropy i = of_nat (7 * i + 3)"

section \<open>Inputs for evaluating the model\<close>

text \<open>Two calls of \<open>encryptMessage\<close> for one recipient at one clock reading.\<close>

definition two_calls :: "(userId list, string) state" where
  "two_calls =
     snd (encryptMessage test_env ''bob'' ''{b}'' (snd (encryptMessage test_env ''bob'' ''{a}'' ready)))"

text \<open>
  A content that cannot be serialised: \<open>JSON.stringify\<close> calls the \<open>toJSON\<close> method of
  the value it is given, and throws what that method throws. Here the content
  \<open>toJSON throws\<close> makes it throw an \<open>Error\<close> with the message \<open>No session\<close>.
\<close>

definition throwing_stringify :: "string \<Rightarrow> js_error + string" where
  "throwing_stringify content =
     (if content = ''toJSON throws'' then Inl (JsError ''No session'') else Inr content)"

definition throwing_env :: "(userId list, string) collaborators" where
  "throwing_env = test_env\<lparr>json_stringify := throwing_stringify\<rparr>"

text \<open>An engine whose \<open>encryptMessage\<close> rejects with a string instead of an \<open>Error\<close>.\<close>

definition rejecting_env :: "(userId list, string) collaborators" where
  "rejecting_env =
     test_env\<lparr>sm_encryptMessage := (\<lambda>m u str. (Inl (Other_value ''encryption failed''), m))\<rparr>"

text \<open>The state after \<open>initializeEncryption\<close> has completed a second time.\<close>

definition ready_again :: "(userId list, string) state" where
  "ready_again =
     snd (initializeEncryption test_env ''me'' (Some \<lparr>ack_success = True, ack_error = []\<rparr>) ready)"

section \<open>Request ids\<close>

lemma digit_char_cases:
  "d < 10 \<Longrightarrow> digit_char d \<in> set ''0123456789''"
proof -
  assume "d < 10"
  then have "d \<in> {0,1,2,3,4,5,6,7,8,9}" by auto
  then show ?thesis by (auto simp: digit_char_def)
qed

lemma digit_value_digit_char: "d < 10 \<Longrightarrow> digit_value (digit_char d) = d"
proof -
  assume "d < 10"
  then have "d \<in> {0,1,2,3,4,5,6,7,8,9}" by auto
  then show ?thesis by (auto simp: digit_char_def)
qed

lemma decimal_value_snoc: "decimal_value (cs @ [c]) = 10 * decimal_value cs + digit_value c"
  by (simp add: decimal_value_def)

lemma decimal_value_decimal: "decimal_value (decimal n) = n"
proof (induction n rule: decimal.induct)
  case (1 n)
  show ?case
  proof (cases "n < 10")
    case True
    then show ?thesis
      using digit_value_digit_char [of n] by (simp add: decimal.simps [of n] decimal_value_def del: digit_value.simps)
  next
    case False
    then show ?thesis
      using 1 digit_value_digit_char [of "n mod 10"]
      by (simp add: decimal.simps [of n] decimal_value_snoc del: digit_value.simps)
  qed
qed

lemma decimal_inj: "decimal m = decimal n \<Longrightarrow> m = n"
  by (metis decimal_value_decimal)

lemma decimal_no_dash: "CHR ''-'' \<notin> set (decimal n)"
proof (induction n rule: decimal.induct)
  case (1 n)
  show ?case
  proof (cases "n < 10")
    case True
    then show ?thesis using digit_char_cases [of n] by (auto simp: decimal.simps [of n])
  next
    case False
    then show ?thesis using 1 digit_char_cases [of "n mod 10"] by (auto simp: decimal.simps [of n])
  qed
qed

lemma split_at_last:
  assumes "xs @ c # ys = xs' @ c # ys'" and "c \<notin> set ys" and "c \<notin> set ys'"
  shows "xs = xs' \<and> ys = ys'"
  using assms
proof (induction xs arbitrary: xs')
  case Nil
  then show ?case by (cases xs') auto
next
  case (Cons x xs)
  then show ?case by (cases xs') auto
qed

lemma request_id_inj:
  "request_id r m = request_id r' n \<Longrightarrow> r = r' \<and> m = n"
  using split_at_last [of r "CHR ''-''" "decimal m" r' "decimal n"] decimal_no_dash decimal_inj
  by (auto simp: request_id_def)

lemma bundle_event_inj: "bundle_event q = bundle_event q' \<Longrightarrow> q = q'"
  by (simp add: bundle_event_def)

lemma listener_event_bundle:
  "listener_event l = bundle_event (request_id r n) \<longleftrightarrow> l = Once_pre_key_bundle r n"
  by (cases l) (auto simp: bundle_event_def dest: request_id_inj)

section \<open>State changes of the primitives\<close>

lemma settle_fields [simp]:
  "signalManager (settle p out s) = signalManager s"
  "pendingMessages (settle p out s) = pendingMessages s"
  "listeners (settle p out s) = listeners s"
  "timers (settle p out s) = timers s"
  "clock (settle p out s) = clock s"
  "emitted (settle p out s) = emitted s"
  "dispatched (settle p out s) = dispatched s"
  "length (promises (settle p out s)) = length (promises s)"
  by (simp_all add: settle_def)

lemma promise_state_settle:
  "promise_state (settle p out s) p' =
     (if p' = p \<and> p < length (promises s) \<and> promise_state s p = None then Some out
      else promise_state s p')"
  by (auto simp: settle_def promise_state_def)

lemma pending_delete_fields [simp]:
  "signalManager (pending_delete q s) = signalManager s"
  "pendingMessages (pending_delete q s) = (pendingMessages s)(q := None)"
  "listeners (pending_delete q s) = listeners s"
  "timers (pending_delete q s) = timers s"
  "clock (pending_delete q s) = clock s"
  "emitted (pending_delete q s) = emitted s"
  "dispatched (pending_delete q s) = dispatched s"
  "promises (pending_delete q s) = promises s"
  by (simp_all add: pending_delete_def)

lemma promise_state_pending_delete [simp]:
  "promise_state (pending_delete q s) p = promise_state s p"
  by (simp add: promise_state_def)

lemma call_manager_fields:
  assumes "call_manager f s = (r, s')"
  shows "pendingMessages s' = pendingMessages s" "listeners s' = listeners s"
    "timers s' = timers s" "clock s' = clock s" "emitted s' = emitted s"
    "dispatched s' = dispatched s" "promises s' = promises s"
  using assms by (auto simp: call_manager_def split: option.splits prod.splits)

lemma call_manager_Some:
  "signalManager s = Some m \<Longrightarrow> f m = (r, m') \<Longrightarrow>
   call_manager f s = (r, s\<lparr>signalManager := Some m'\<rparr>)"
  by (simp add: call_manager_def)

lemma promise_state_call_manager:
  "call_manager f s = (r, s') \<Longrightarrow> promise_state s' p = promise_state s p"
  by (simp add: promise_state_def call_manager_fields)

lemma snd_call_manager [simp]:
  "pendingMessages (snd (call_manager f s)) = pendingMessages s"
  "listeners (snd (call_manager f s)) = listeners s"
  "timers (snd (call_manager f s)) = timers s"
  "clock (snd (call_manager f s)) = clock s"
  "emitted (snd (call_manager f s)) = emitted s"
  "dispatched (snd (call_manager f s)) = dispatched s"
  "promises (snd (call_manager f s)) = promises s"
  "promise_state (snd (call_manager f s)) p = promise_state s p"
  by (cases "call_manager f s"; simp add: call_manager_fields promise_state_call_manager)+

lemma promise_state_emit [simp]:
  "promise_state (socket_emit f s) p = promise_state s p"
  "promise_state (dispatchEvent ev s) p = promise_state s p"
  by (simp_all add: socket_emit_def dispatchEvent_def promise_state_def)

lemma promise_state_cong:
  "promises s' = promises s \<Longrightarrow> promise_state s' p = promise_state s p"
  by (simp add: promise_state_def)

section \<open>Evaluating the model\<close>

lemmas test_defs = test_env_def test_encrypt_def test_process_def test_decrypt_def test_parse_def ready_def

lemmas eval_defs =
  encryptMessage_def call_manager_def encrypt_catch_def new_promise_def socket_emit_def
  request_id_def decimal.simps digit_char_def socket_receive_def bundle_event_def
  on_pre_key_bundle_def bundle_catch_def settle_def pending_delete_def advance_clock_def
  on_timeout_def promise_state_def timeout_error_def Let_def

lemma ready_fields:
  "signalManager ready = Some []" "clock ready = 0" "promises ready = []"
  "emitted ready = [Register_public_keys ''keys'']" "dispatched ready = []"
  "listeners ready = [On_new_pre_key_bundle, On_encrypted_message]" "timers ready = []"
  by (simp_all add: ready_def)

lemma ready_is_initialized:
  "initializeEncryption test_env ''me'' (Some \<lparr>ack_success = True, ack_error = []\<rparr>) initial_state
     = (Init_done, ready)"
  by (simp add: initializeEncryption_def call_manager_def socket_emit_def initial_state_def test_defs)

lemma request_id_bob_0: "request_id ''bob'' 0 = ''bob-0''"
  by (simp add: request_id_def decimal.simps digit_char_def)

section \<open>String.includes\<close>

lemma starts_with_iff: "starts_with s sub \<longleftrightarrow> (\<exists>post. s = sub @ post)"
  by (induction s sub rule: starts_with.induct) auto

lemma str_includes_iff: "str_includes s sub \<longleftrightarrow> (\<exists>pre post. s = pre @ sub @ post)"
proof (induction s)
  case Nil
  then show ?case by (auto simp: starts_with_iff)
next
  case (Cons x xs)
  show ?case
  proof
    assume "str_includes (x # xs) sub"
    then consider "starts_with (x # xs) sub" | "str_includes xs sub" by auto
    then show "\<exists>pre post. x # xs = pre @ sub @ post"
    proof cases
      case 1
      then obtain post where "x # xs = sub @ post" by (auto simp: starts_with_iff)
      then have "x # xs = [] @ sub @ post" by simp
      then show ?thesis by blast
    next
      case 2
      then obtain pre post where "xs = pre @ sub @ post" using Cons by auto
      then have "x # xs = (x # pre) @ sub @ post" by simp
      then show ?thesis by blast
    qed
  next
    assume "\<exists>pre post. x # xs = pre @ sub @ post"
    then obtain pre post where eq: "x # xs = pre @ sub @ post" by auto
    show "str_includes (x # xs) sub"
    proof (cases pre)
      case Nil
      then have "starts_with (x # xs) sub" using eq by (auto simp: starts_with_iff)
      then show ?thesis by simp
    next
      case (Cons y ys)
      then have "xs = ys @ sub @ post" using eq by simp
      then have "str_includes xs sub" using Cons.IH by auto
      then show ?thesis by simp
    qed
  qed
qed

section \<open>The catch block of encryptMessage\<close>

lemma encrypt_catch_no_session:
  assumes "str_includes msg ''No session''"
  shows "encrypt_catch r content (JsError msg) s =
     (Awaiting (length (promises s)),
      s\<lparr>pendingMessages := (pendingMessages s)(request_id r (clock s) \<mapsto>
            \<lparr>pm_recipientId = r, pm_content = content, pm_promise = length (promises s)\<rparr>),
        listeners := listeners s @ [Once_pre_key_bundle r (clock s)],
        timers := timers s @ [(clock s + 10000, request_id r (clock s))],
        promises := promises s @ [None],
        emitted := emitted s @ [Request_pre_key_bundle r (Some (request_id r (clock s)))]\<rparr>)"
  using assms by (simp add: encrypt_catch_def new_promise_def socket_emit_def Let_def)

lemma encrypt_catch_other:
  assumes "\<not> str_includes msg ''No session''"
  shows "encrypt_catch r content (JsError msg) s = (Thrown (JsError msg), s)"
  using assms by (simp add: encrypt_catch_def)

lemma encrypt_catch_no_message:
  "encrypt_catch r content (Other_value v) s = (Thrown not_a_string, s)"
  by (simp add: encrypt_catch_def)

text \<open>
  The \<open>catch\<close> block starts the exchange exactly when the value caught has a string
  message in which \<open>No session\<close> occurs.
\<close>

lemma exchange_starts_iff:
  "(\<exists>p. fst (encrypt_catch r content error s) = Awaiting p) \<longleftrightarrow>
     (\<exists>pre post. error = JsError (pre @ ''No session'' @ post))"
proof (cases error)
  case (JsError msg)
  then show ?thesis
    using str_includes_iff [of msg "''No session''"]
    by (auto simp: encrypt_catch_def new_promise_def Let_def)
next
  case (Other_value v)
  then show ?thesis by (simp add: encrypt_catch_def)
qed

text \<open>
  An error thrown by \<open>JSON.stringify\<close> at line 83 reaches the \<open>catch\<close> block as one
  thrown by the engine does.
\<close>

lemma encryptMessage_stringify_failure:
  assumes "signalManager s = Some m" and "json_stringify env content = Inl error"
  shows "encryptMessage env r content s = encrypt_catch r content error s"
  using assms by (simp add: encryptMessage_def)

lemma encryptMessage_engine_failure:
  assumes "signalManager s = Some m"
    and "json_stringify env content = Inr str"
    and "sm_encryptMessage env m r str = (Inl error, m1)"
  shows "encryptMessage env r content s =
           encrypt_catch r content error (s\<lparr>signalManager := Some m1\<rparr>)"
  using assms by (simp add: encryptMessage_def call_manager_def)

lemma encryptMessage_success:
  assumes "signalManager s = Some m"
    and "json_stringify env content = Inr str"
    and "sm_encryptMessage env m r str = (Inr encryptedMessage, m1)"
  shows "encryptMessage env r content s = (Returned encryptedMessage, s\<lparr>signalManager := Some m1\<rparr>)"
  using assms by (simp add: encryptMessage_def call_manager_def)

text \<open>
  C4. The \<open>try\<close> block of lines 82-85 holds \<open>JSON.stringify\<close> as well as the call of
  the engine, and line 88 tests the message of whatever was caught. With a session for
  \<open>bob\<close> established, on which the engine encrypts, a content whose serialisation
  throws an error with the message \<open>No session\<close> starts the exchange: the call returns
  a pending promise, stores a pending entry and emits a \<open>request-pre-key-bundle\<close>
  frame, while the engine has not failed. An error of the engine without \<open>No session\<close>
  in its message is thrown to the caller as it is. But when the engine rejects with a
  value that has no \<open>message\<close>, the caller does not get that value but the
  \<open>TypeError\<close> of line 88.
\<close>

theorem serialisation_error_starts_exchange:
  "encryptMessage test_env ''bob'' ''{}'' (ready\<lparr>signalManager := Some [''bob'']\<rparr>) =
     (Returned ''enc:{}'', ready\<lparr>signalManager := Some [''bob'']\<rparr>)
   \<and> json_stringify throwing_env ''toJSON throws'' = Inl (JsError ''No session'')
   \<and> fst (encryptMessage throwing_env ''bob'' ''toJSON throws''
            (ready\<lparr>signalManager := Some [''bob'']\<rparr>)) = Awaiting 0
   \<and> emitted (snd (encryptMessage throwing_env ''bob'' ''toJSON throws''
                 (ready\<lparr>signalManager := Some [''bob'']\<rparr>))) =
       [Register_public_keys ''keys'', Request_pre_key_bundle ''bob'' (Some ''bob-0'')]
   \<and> pendingMessages (snd (encryptMessage throwing_env ''bob'' ''toJSON throws''
                 (ready\<lparr>signalManager := Some [''bob'']\<rparr>))) ''bob-0'' =
       Some \<lparr>pm_recipientId = ''bob'', pm_content = ''toJSON throws'', pm_promise = 0\<rparr>
   \<and> signalManager (snd (encryptMessage throwing_env ''bob'' ''toJSON throws''
                 (ready\<lparr>signalManager := Some [''bob'']\<rparr>))) = Some [''bob'']
   \<and> encryptMessage test_env ''bob'' [] (ready\<lparr>signalManager := Some [''bob'']\<rparr>) =
       (Thrown (JsError ''Empty message''), ready\<lparr>signalManager := Some [''bob'']\<rparr>)
   \<and> sm_encryptMessage rejecting_env [''bob''] ''bob'' ''{}'' =
       (Inl (Other_value ''encryption failed''), [''bob''])
   \<and> encryptMessage rejecting_env ''bob'' ''{}'' (ready\<lparr>signalManager := Some [''bob'']\<rparr>) =
       (Thrown (JsError ''Cannot read properties of undefined''),
        ready\<lparr>signalManager := Some [''bob'']\<rparr>)"
  by (simp add: eval_defs test_defs throwing_env_def throwing_stringify_def rejecting_env_def
      not_a_string_def)

section \<open>A promise is settled at most once\<close>

lemma settle_keeps:
  "promise_state s p = Some out \<Longrightarrow> promise_state (settle p' out' s) p = Some out"
  by (auto simp: promise_state_settle)

lemma bundle_catch_keeps:
  "promise_state s p = Some out \<Longrightarrow> promise_state (bundle_catch q e s) p = Some out"
  by (simp add: bundle_catch_def settle_keeps split: option.splits)

lemma on_pre_key_bundle_keeps:
  assumes "promise_state s p = Some out"
  shows "promise_state (on_pre_key_bundle env r q b s) p = Some out"
  using assms
  by (simp add: on_pre_key_bundle_def case_prod_beta bundle_catch_keeps settle_keeps
      split: sum.splits option.splits)

lemma on_timeout_keeps:
  "promise_state s p = Some out \<Longrightarrow> promise_state (on_timeout q s) p = Some out"
  by (simp add: on_timeout_def settle_keeps split: option.splits)

lemma on_new_pre_key_bundle_keeps:
  "promise_state s p = Some out \<Longrightarrow> promise_state (on_new_pre_key_bundle env u b s) p = Some out"
  by (simp add: on_new_pre_key_bundle_def)

lemma on_encrypted_message_keeps:
  assumes "promise_state s p = Some out"
  shows "promise_state (on_encrypted_message env u ch c i s) p = Some out"
  using assms
  by (simp add: on_encrypted_message_def case_prod_beta split: sum.splits)

lemma run_listener_keeps:
  "promise_state s p = Some out \<Longrightarrow> promise_state (run_listener env frame l s) p = Some out"
  by (cases "(env, frame, l, s)" rule: run_listener.cases)
    (simp_all add: on_pre_key_bundle_keeps on_new_pre_key_bundle_keeps on_encrypted_message_keeps)

lemma fold_keeps:
  assumes "\<And>x s. promise_state s p = Some out \<Longrightarrow> promise_state (h x s) p = Some out"
    and "promise_state s p = Some out"
  shows "promise_state (fold h xs s) p = Some out"
  using assms(2) by (induction xs arbitrary: s) (simp_all add: assms(1))

lemma socket_receive_keeps:
  assumes "promise_state s p = Some out"
  shows "promise_state (socket_receive env frame s) p = Some out"
  unfolding socket_receive_def Let_def
proof (rule fold_keeps)
  show "promise_state (s\<lparr>listeners := k\<rparr>) p = Some out" for k
    using assms by (simp add: promise_state_cong [of "s\<lparr>listeners := k\<rparr>" s])
qed (rule run_listener_keeps)

lemma advance_clock_keeps:
  assumes "promise_state s p = Some out"
  shows "promise_state (advance_clock t s) p = Some out"
proof (cases "t \<le> clock s")
  case True
  then show ?thesis using assms by (simp add: advance_clock_def)
next
  case False
  have "promise_state (fold (\<lambda>(d, q). on_timeout q) ts (s\<lparr>timers := k, clock := t\<rparr>)) p = Some out"
    for ts k
  proof (rule fold_keeps)
    show "promise_state (s\<lparr>timers := k, clock := t\<rparr>) p = Some out"
      using assms by (simp add: promise_state_cong [of "s\<lparr>timers := k, clock := t\<rparr>" s])
  qed (auto simp: on_timeout_keeps)
  then show ?thesis using False by (simp add: advance_clock_def Let_def)
qed

lemma encrypt_catch_keeps:
  "promise_state s p = Some out \<Longrightarrow> promise_state (snd (encrypt_catch r content e s)) p = Some out"
  by (auto simp: encrypt_catch_def new_promise_def socket_emit_def Let_def promise_state_def
      nth_append split: if_splits js_error.splits)

lemma encryptMessage_keeps:
  assumes "promise_state s p = Some out"
  shows "promise_state (snd (encryptMessage env r content s)) p = Some out"
  using assms
  by (simp add: encryptMessage_def case_prod_beta encrypt_catch_keeps
      split: option.splits sum.splits)

text \<open>
  Whatever enters the module next, a promise that has an outcome keeps it: \<open>resolve\<close>
  and \<open>reject\<close> on a settled promise do nothing.
\<close>

lemma settled_stays_settled:
  "promise_state s p = Some out \<Longrightarrow> promise_state (fold (enter env) entries s) p = Some out"
proof (rule fold_keeps)
  fix x and s :: "('a, 'b) state"
  assume "promise_state s p = Some out"
  then show "promise_state (enter env x s) p = Some out"
    by (cases x) (simp_all add: encryptMessage_keeps socket_receive_keeps advance_clock_keeps)
qed

section \<open>A second response finds no listener\<close>

lemma on_pre_key_bundle_listeners [simp]:
  "listeners (on_pre_key_bundle env r q b s) = listeners s"
  by (simp add: on_pre_key_bundle_def case_prod_beta bundle_catch_def
      split: sum.splits option.splits)

lemma fold_bundle_listeners:
  "listeners (fold (run_listener env (Pre_key_bundle q b)) ls s) = listeners s"
proof (induction ls arbitrary: s)
  case Nil
  then show ?case by simp
next
  case (Cons l ls)
  have "listeners (run_listener env (Pre_key_bundle q b) l s) = listeners s"
    by (cases l) simp_all
  then show ?case using Cons by simp
qed

lemma bundle_listener_once:
  "listener_event l = bundle_event q \<Longrightarrow> is_once l"
  by (cases l) (simp_all add: bundle_event_def)

lemma socket_receive_unheard:
  assumes "\<forall>l \<in> set (listeners s). listener_event l \<noteq> frame_event frame"
  shows "socket_receive env frame s = s"
proof -
  have "filter (\<lambda>l. listener_event l = frame_event frame) (listeners s) = []"
    using assms by (simp add: filter_empty_conv)
  moreover have "filter (\<lambda>l. \<not> (is_once l \<and> listener_event l = frame_event frame)) (listeners s)
      = listeners s"
    using assms by (simp add: filter_id_conv)
  ultimately show ?thesis by (simp add: socket_receive_def)
qed

text \<open>
  Once a \<open>pre-key-bundle-<requestId>\<close> frame has been received, a further frame of the
  same event changes nothing: the listeners of that event were all registered with
  \<open>once\<close>.
\<close>

lemma second_response_ignored:
  "socket_receive env (Pre_key_bundle q b') (socket_receive env (Pre_key_bundle q b) s) =
     socket_receive env (Pre_key_bundle q b) s"
proof (rule socket_receive_unheard)
  have "listeners (socket_receive env (Pre_key_bundle q b) s) =
          filter (\<lambda>l. \<not> (is_once l \<and> listener_event l = bundle_event q)) (listeners s)"
    by (simp add: socket_receive_def Let_def fold_bundle_listeners)
  then show "\<forall>l \<in> set (listeners (socket_receive env (Pre_key_bundle q b) s)).
               listener_event l \<noteq> frame_event (Pre_key_bundle q b')"
    using bundle_listener_once by auto
qed

section \<open>After a timeout\<close>

lemma on_timeout_listeners [simp]: "listeners (on_timeout q s) = listeners s"
  by (simp add: on_timeout_def split: option.splits)

lemma fold_on_timeout_listeners:
  "listeners (fold (\<lambda>(d, q). on_timeout q) ts s) = listeners s"
  by (induction ts arbitrary: s) (simp_all add: case_prod_beta)

lemma advance_clock_listeners: "listeners (advance_clock t s) = listeners s"
  by (simp add: advance_clock_def Let_def fold_on_timeout_listeners)

text \<open>
  C6. The timeout callback (lines 130-136) deletes the pending entry and rejects the
  promise, but does not remove the listener registered with \<open>socket.once\<close> at line 104:
  after the timeout the listener is still on the socket while its entry is gone.
\<close>

theorem listener_outlives_timeout:
  "fst (encryptMessage test_env ''bob'' ''{}'' ready) = Awaiting 0
   \<and> promise_state (advance_clock 10000 (snd (encryptMessage test_env ''bob'' ''{}'' ready))) 0
       = Some (Rejected (JsError ''Timeout requesting pre-key bundle''))
   \<and> pendingMessages (advance_clock 10000 (snd (encryptMessage test_env ''bob'' ''{}'' ready)))
       ''bob-0'' = None
   \<and> listeners (advance_clock 10000 (snd (encryptMessage test_env ''bob'' ''{}'' ready)))
       = [On_new_pre_key_bundle, On_encrypted_message, Once_pre_key_bundle ''bob'' 0]
   \<and> listener_event (Once_pre_key_bundle ''bob'' 0) = ''pre-key-bundle-bob-0''"
  by (simp add: eval_defs test_defs)

text \<open>
  C7. A response that arrives after the timeout still reaches the listener, which calls
  \<open>processPreKeyBundle\<close> before it looks for the pending entry: the engine, which had no
  session with \<open>bob\<close> after the timeout, has one after the late response. The promise
  stays rejected.
\<close>

theorem late_response_is_processed:
  "signalManager (advance_clock 10000 (snd (encryptMessage test_env ''bob'' ''{}'' ready)))
     = Some []
   \<and> promise_state (advance_clock 10000 (snd (encryptMessage test_env ''bob'' ''{}'' ready))) 0
       = Some (Rejected (JsError ''Timeout requesting pre-key bundle''))
   \<and> signalManager
        (socket_receive test_env (Pre_key_bundle ''bob-0'' ''B'')
          (advance_clock 10000 (snd (encryptMessage test_env ''bob'' ''{}'' ready))))
       = Some [''bob'']
   \<and> promise_state
        (socket_receive test_env (Pre_key_bundle ''bob-0'' ''B'')
          (advance_clock 10000 (snd (encryptMessage test_env ''bob'' ''{}'' ready)))) 0
       = Some (Rejected (JsError ''Timeout requesting pre-key bundle''))"
  by (simp add: eval_defs test_defs)

section \<open>Incoming messages\<close>

lemma on_encrypted_message_failure:
  assumes "signalManager s = Some m"
    and "sm_decryptMessage env m senderId c = (Inl error, m1)"
  shows "on_encrypted_message env senderId channelId c messageId s =
           socket_emit (Request_pre_key_bundle senderId None) (s\<lparr>signalManager := Some m1\<rparr>)"
  using assms by (simp add: on_encrypted_message_def call_manager_def)

lemma on_encrypted_message_unparsed:
  assumes "signalManager s = Some m"
    and "sm_decryptMessage env m senderId c = (Inr decryptedContent, m1)"
    and "json_parse env decryptedContent = Inl error"
  shows "on_encrypted_message env senderId channelId c messageId s =
           socket_emit (Request_pre_key_bundle senderId None) (s\<lparr>signalManager := Some m1\<rparr>)"
  using assms by (simp add: on_encrypted_message_def call_manager_def)

lemma on_encrypted_message_success:
  assumes "signalManager s = Some m"
    and "sm_decryptMessage env m senderId c = (Inr decryptedContent, m1)"
    and "json_parse env decryptedContent = Inr content"
  shows "on_encrypted_message env senderId channelId c messageId s =
           socket_emit (Message_decrypted messageId)
             (dispatchEvent \<lparr>ev_messageId = messageId, ev_senderId = senderId,
                 ev_channelId = channelId, ev_content = content\<rparr> (s\<lparr>signalManager := Some m1\<rparr>))"
  using assms by (simp add: on_encrypted_message_def call_manager_def)

text \<open>
  The listeners of the \<open>encrypted-message\<close> event are the handlers that
  \<open>initializeEncryption\<close> has registered at line 27, one for each time it has
  completed; none of them is removed when the frame is received.
\<close>

lemma encrypted_message_listeners:
  "filter (\<lambda>l. listener_event l = ''encrypted-message'') ls =
     replicate (count_list ls On_encrypted_message) On_encrypted_message"
proof (induction ls)
  case Nil
  then show ?case by simp
next
  case (Cons l ls)
  then show ?case by (cases l) (simp_all add: bundle_event_def)
qed

lemma encrypted_message_kept:
  "filter (\<lambda>l. \<not> (is_once l \<and> listener_event l = ''encrypted-message'')) ls = ls"
proof (induction ls)
  case Nil
  then show ?case by simp
next
  case (Cons l ls)
  then show ?case by (cases l) (simp_all add: bundle_event_def)
qed

lemma socket_receive_encrypted_message:
  "socket_receive env (Encrypted_message senderId channelId c messageId) s =
     fold (run_listener env (Encrypted_message senderId channelId c messageId))
       (replicate (count_list (listeners s) On_encrypted_message) On_encrypted_message) s"
  by (simp only: socket_receive_def Let_def frame_event.simps encrypted_message_listeners
      encrypted_message_kept) simp

lemma socket_receive_registered_once:
  assumes "count_list (listeners s) On_encrypted_message = 1"
  shows "socket_receive env (Encrypted_message senderId channelId c messageId) s =
           on_encrypted_message env senderId channelId c messageId s"
  using assms by (simp add: socket_receive_encrypted_message)

text \<open>
  No function of the module removes the handler of line 27, and only
  \<open>initializeEncryption\<close> registers it: after \<open>initializeEncryption\<close> has completed
  once, the handler is on the socket exactly once, whatever enters the module.
\<close>

lemma on_encrypted_message_listeners [simp]:
  "listeners (on_encrypted_message env u ch c i s) = listeners s"
  by (simp add: on_encrypted_message_def case_prod_beta socket_emit_def dispatchEvent_def
      split: sum.splits)

lemma run_listener_listeners [simp]:
  "listeners (run_listener env frame l s) = listeners s"
  by (cases "(env, frame, l, s)" rule: run_listener.cases)
    (simp_all add: on_new_pre_key_bundle_def)

lemma fold_run_listener_listeners:
  "listeners (fold (run_listener env frame) ls s) = listeners s"
  by (induction ls arbitrary: s) simp_all

lemma count_kept:
  "P On_encrypted_message \<Longrightarrow>
   count_list (filter P ls) On_encrypted_message = count_list ls On_encrypted_message"
  by (induction ls) auto

lemma count_socket_receive:
  "count_list (listeners (socket_receive env frame s)) On_encrypted_message =
     count_list (listeners s) On_encrypted_message"
  by (simp add: socket_receive_def Let_def fold_run_listener_listeners count_kept)

lemma count_encryptMessage:
  "count_list (listeners (snd (encryptMessage env r content s))) On_encrypted_message =
     count_list (listeners s) On_encrypted_message"
  by (simp add: encryptMessage_def encrypt_catch_def new_promise_def socket_emit_def Let_def
      case_prod_beta split: option.splits sum.splits js_error.splits)

lemma count_enter:
  "count_list (listeners (enter env e s)) On_encrypted_message =
     count_list (listeners s) On_encrypted_message"
  by (cases e) (simp_all add: count_encryptMessage count_socket_receive advance_clock_listeners)

lemma count_reached:
  "count_list (listeners (fold (enter env) entries s)) On_encrypted_message =
     count_list (listeners s) On_encrypted_message"
  by (induction entries arbitrary: s) (simp_all add: count_enter)

lemma handler_registered_once:
  assumes "initializeEncryption env userId ack initial_state = (Init_done, s)"
  shows "count_list (listeners (fold (enter env) entries s)) On_encrypted_message = 1"
proof -
  have "listeners s = [On_new_pre_key_bundle, On_encrypted_message]"
    using assms
    by (auto simp: initializeEncryption_def initial_state_def Let_def case_prod_beta
        socket_emit_def split: sum.splits option.splits if_splits)
  then show ?thesis by (simp add: count_reached)
qed

text \<open>
  C5, as the claim states it, fails: the engine decrypts \<open>enc:hello\<close> for \<open>alice\<close> to
  \<open>hello\<close>, which is not JSON, and the handler dispatches no event and emits no
  acknowledgement but a \<open>request-pre-key-bundle\<close> frame. This is what the socket does
  with the frame after one \<open>initializeEncryption\<close>. After \<open>initializeEncryption\<close> has
  completed a second time the handler of line 27 is on the socket twice, and one frame
  with the message \<open>enc:{}\<close>, which the engine decrypts to the JSON text \<open>{}\<close>, is
  dispatched twice and acknowledged twice.
\<close>

theorem decrypted_but_not_delivered:
  "sm_decryptMessage test_env [] ''alice'' ''enc:hello'' = (Inr ''hello'', [])
   \<and> dispatched (on_encrypted_message test_env ''alice'' ''general'' ''enc:hello'' ''m1'' ready) = []
   \<and> emitted (on_encrypted_message test_env ''alice'' ''general'' ''enc:hello'' ''m1'' ready) =
       [Register_public_keys ''keys'', Request_pre_key_bundle ''alice'' None]
   \<and> socket_receive test_env (Encrypted_message ''alice'' ''general'' ''enc:hello'' ''m1'') ready =
       on_encrypted_message test_env ''alice'' ''general'' ''enc:hello'' ''m1'' ready
   \<and> fst (initializeEncryption test_env ''me'' (Some \<lparr>ack_success = True, ack_error = []\<rparr>) ready)
       = Init_done
   \<and> listeners ready_again =
       [On_new_pre_key_bundle, On_encrypted_message, On_new_pre_key_bundle, On_encrypted_message]
   \<and> sm_decryptMessage test_env [] ''alice'' ''enc:{}'' = (Inr ''{}'', [])
   \<and> json_parse test_env ''{}'' = Inr ''{}''
   \<and> dispatched
        (socket_receive test_env (Encrypted_message ''alice'' ''general'' ''enc:{}'' ''m2'') ready_again) =
       [\<lparr>ev_messageId = ''m2'', ev_senderId = ''alice'', ev_channelId = ''general'',
         ev_content = ''{}''\<rparr>,
        \<lparr>ev_messageId = ''m2'', ev_senderId = ''alice'', ev_channelId = ''general'',
         ev_content = ''{}''\<rparr>]
   \<and> emitted
        (socket_receive test_env (Encrypted_message ''alice'' ''general'' ''enc:{}'' ''m2'') ready_again) =
       [Register_public_keys ''keys'', Register_public_keys ''keys'',
        Message_decrypted ''m2'', Message_decrypted ''m2'']"
  by (simp add: on_encrypted_message_def call_manager_def socket_emit_def dispatchEvent_def
      socket_receive_def initializeEncryption_def ready_again_def test_defs)

text \<open>
  C5, amended. While the handler of line 27 is on the socket once, as it is after one
  completed \<open>initializeEncryption\<close>, the socket's receiving an \<open>encrypted-message\<close>
  frame has these effects. When the engine decrypts the message and the plaintext parses
  as JSON, one \<open>message-decrypted\<close> window event with the parsed content is dispatched
  and exactly one \<open>message-decrypted\<close> frame with the message id is emitted. When the
  engine fails to decrypt, exactly one \<open>request-pre-key-bundle\<close> frame for the sender
  is emitted, no acknowledgement, and nothing is dispatched.
\<close>

theorem incoming_message_handling:
  assumes registered: "count_list (listeners s) On_encrypted_message = 1"
    and manager: "signalManager s = Some m"
    and outcome: "sm_decryptMessage env m senderId c = (res, m1)"
    and received: "socket_receive env (Encrypted_message senderId channelId c messageId) s = s'"
  shows "(\<forall>decryptedContent content.
            res = Inr decryptedContent \<and> json_parse env decryptedContent = Inr content \<longrightarrow>
              dispatched s' = dispatched s @
                [\<lparr>ev_messageId = messageId, ev_senderId = senderId,
                  ev_channelId = channelId, ev_content = content\<rparr>]
              \<and> emitted s' = emitted s @ [Message_decrypted messageId])
       \<and> (\<forall>error. res = Inl error \<longrightarrow>
              dispatched s' = dispatched s
              \<and> emitted s' = emitted s @ [Request_pre_key_bundle senderId None])"
proof -
  have handled: "on_encrypted_message env senderId channelId c messageId s = s'"
    using received by (simp add: socket_receive_registered_once [OF registered])
  show ?thesis
  proof (cases res)
    case (Inl error)
    then show ?thesis
      using on_encrypted_message_failure [OF manager outcome [unfolded Inl]] handled
      by (auto simp: socket_emit_def)
  next
    case (Inr decryptedContent)
    show ?thesis
    proof (cases "json_parse env decryptedContent")
      case (Inl error)
      then show ?thesis by (simp add: Inr)
    next
      case (Inr content)
      then show ?thesis
        using on_encrypted_message_success
            [OF manager outcome [unfolded \<open>res = Inr decryptedContent\<close>] Inr] handled
        by (auto simp: \<open>res = Inr decryptedContent\<close> socket_emit_def dispatchEvent_def)
    qed
  qed
qed

theorem incoming_message_handling_witness:
  "count_list (listeners ready) On_encrypted_message = 1
   \<and> json_parse test_env ''{}'' = Inr ''{}''
   \<and> dispatched (socket_receive test_env (Encrypted_message ''alice'' ''general'' ''enc:{}'' ''m1'') ready) =
       [\<lparr>ev_messageId = ''m1'', ev_senderId = ''alice'', ev_channelId = ''general'',
         ev_content = ''{}''\<rparr>]
   \<and> emitted (socket_receive test_env (Encrypted_message ''alice'' ''general'' ''enc:{}'' ''m1'') ready) =
       [Register_public_keys ''keys'', Message_decrypted ''m1'']
   \<and> dispatched (socket_receive test_env (Encrypted_message ''alice'' ''general'' ''garbage'' ''m2'') ready) = []
   \<and> emitted (socket_receive test_env (Encrypted_message ''alice'' ''general'' ''garbage'' ''m2'') ready) =
       [Register_public_keys ''keys'', Request_pre_key_bundle ''alice'' None]"
proof -
  have h0: "count_list (listeners ready) On_encrypted_message = 1" by (simp add: ready_def)
  have h1: "signalManager ready = Some []" by (simp add: ready_def)
  have h2: "sm_decryptMessage test_env [] ''alice'' ''enc:{}'' = (Inr ''{}'', [])"
    by (simp add: test_env_def test_decrypt_def)
  have h3: "json_parse test_env ''{}'' = Inr ''{}''"
    by (simp add: test_env_def test_parse_def)
  have g2: "sm_decryptMessage test_env [] ''alice'' ''garbage'' = (Inl (JsError ''Bad MAC''), [])"
    by (simp add: test_env_def test_decrypt_def)
  have e: "emitted ready = [Register_public_keys ''keys'']" "dispatched ready = []"
    by (simp_all add: ready_def)
  show ?thesis
    using incoming_message_handling
        [where channelId = "''general''" and messageId = "''m1''", OF h0 h1 h2 refl]
      incoming_message_handling
        [where channelId = "''general''" and messageId = "''m2''", OF h0 h1 g2 refl] h0 h3
    by (simp add: e)
qed

text \<open>
  C10. When the engine decrypts the message but \<open>JSON.parse\<close> throws on the plaintext,
  the handler emits one \<open>request-pre-key-bundle\<close> frame for the sender, no
  acknowledgement, and dispatches nothing; the state it leaves is the one a failing
  \<open>decryptMessage\<close> would have left.
\<close>

theorem parse_failure_takes_failure_path:
  assumes manager: "signalManager s = Some m"
    and decrypted: "sm_decryptMessage env m senderId c = (Inr decryptedContent, m1)"
    and unparsed: "json_parse env decryptedContent = Inl parse_error"
    and failing: "sm_decryptMessage env' m senderId c = (Inl decrypt_error, m1)"
  shows "emitted (on_encrypted_message env senderId channelId c messageId s) =
           emitted s @ [Request_pre_key_bundle senderId None]
       \<and> dispatched (on_encrypted_message env senderId channelId c messageId s) = dispatched s
       \<and> on_encrypted_message env senderId channelId c messageId s =
           on_encrypted_message env' senderId channelId c messageId s"
  using on_encrypted_message_unparsed [OF manager decrypted unparsed]
    on_encrypted_message_failure [OF manager failing]
  by (simp add: socket_emit_def)

theorem parse_failure_takes_failure_path_witness:
  "json_parse test_env ''hello'' = Inl (JsError ''Unexpected token'')
   \<and> emitted (on_encrypted_message test_env ''alice'' ''general'' ''enc:hello'' ''m1'' ready) =
       [Register_public_keys ''keys'', Request_pre_key_bundle ''alice'' None]
   \<and> dispatched (on_encrypted_message test_env ''alice'' ''general'' ''enc:hello'' ''m1'' ready) = []
   \<and> on_encrypted_message test_env ''alice'' ''general'' ''enc:hello'' ''m1'' ready =
       on_encrypted_message (test_env\<lparr>sm_decryptMessage := (\<lambda>m u c. (Inl (JsError ''Bad MAC''), m))\<rparr>)
         ''alice'' ''general'' ''enc:hello'' ''m1'' ready"
proof -
  have h1: "signalManager ready = Some []" by (simp add: ready_def)
  have h2: "sm_decryptMessage test_env [] ''alice'' ''enc:hello'' = (Inr ''hello'', [])"
    by (simp add: test_env_def test_decrypt_def)
  have h3: "json_parse test_env ''hello'' = Inl (JsError ''Unexpected token'')"
    by (simp add: test_env_def test_parse_def)
  have h4: "sm_decryptMessage (test_env\<lparr>sm_decryptMessage := (\<lambda>m u c. (Inl (JsError ''Bad MAC''), m))\<rparr>)
              [] ''alice'' ''enc:hello'' = (Inl (JsError ''Bad MAC''), [])"
    by simp
  have e: "emitted ready = [Register_public_keys ''keys'']" "dispatched ready = []"
    by (simp_all add: ready_def)
  note r = parse_failure_takes_failure_path
    [where channelId = "''general''" and messageId = "''m1''", OF h1 h2 h3 h4]
  have a: "emitted (on_encrypted_message test_env ''alice'' ''general'' ''enc:hello'' ''m1'' ready) =
       [Register_public_keys ''keys'', Request_pre_key_bundle ''alice'' None]"
    using r [THEN conjunct1] by (simp add: e)
  have b: "dispatched (on_encrypted_message test_env ''alice'' ''general'' ''enc:hello'' ''m1'' ready) = []"
    using r [THEN conjunct2, THEN conjunct1] by (simp add: e)
  show ?thesis
    by (intro conjI) (rule h3 a b r [THEN conjunct2, THEN conjunct2])+
qed

section \<open>Two requests with one id\<close>

lemma unreferenced_cong:
  "promises s' = promises s \<Longrightarrow> pendingMessages s' = pendingMessages s \<Longrightarrow>
   unreferenced p s' = unreferenced p s"
  by (simp add: unreferenced_def promise_state_def)

lemma unreferenced_settle_delete:
  assumes "unreferenced p s" and "pendingMessages s q = Some pm"
  shows "unreferenced p (pending_delete q (settle (pm_promise pm) out s))"
  using assms by (auto simp: unreferenced_def promise_state_settle)

lemma unreferenced_on_timeout:
  "unreferenced p s \<Longrightarrow> unreferenced p (on_timeout q s)"
  by (simp add: on_timeout_def unreferenced_settle_delete split: option.splits)

lemma unreferenced_bundle_catch:
  "unreferenced p s \<Longrightarrow> unreferenced p (bundle_catch q e s)"
  by (simp add: bundle_catch_def unreferenced_settle_delete split: option.splits)

lemma unreferenced_call_manager:
  "unreferenced p (snd (call_manager f s)) = unreferenced p s"
  by (simp add: unreferenced_def)

lemma unreferenced_on_pre_key_bundle:
  assumes "unreferenced p s"
  shows "unreferenced p (on_pre_key_bundle env r q b s)"
  using assms
  by (simp add: on_pre_key_bundle_def case_prod_beta unreferenced_bundle_catch
      unreferenced_settle_delete unreferenced_call_manager split: sum.splits option.splits)

lemma unreferenced_emit:
  "unreferenced p (socket_emit f s) = unreferenced p s"
  "unreferenced p (dispatchEvent ev s) = unreferenced p s"
  by (simp_all add: unreferenced_def socket_emit_def dispatchEvent_def promise_state_def)

lemma unreferenced_on_encrypted_message:
  "unreferenced p s \<Longrightarrow> unreferenced p (on_encrypted_message env u ch c i s)"
  by (simp add: on_encrypted_message_def case_prod_beta unreferenced_emit
      unreferenced_call_manager split: sum.splits)

lemma unreferenced_run_listener:
  "unreferenced p s \<Longrightarrow> unreferenced p (run_listener env frame l s)"
  by (cases "(env, frame, l, s)" rule: run_listener.cases)
    (simp_all add: unreferenced_on_pre_key_bundle on_new_pre_key_bundle_def
      unreferenced_call_manager unreferenced_on_encrypted_message)

lemma fold_unreferenced:
  assumes "\<And>x s. unreferenced p s \<Longrightarrow> unreferenced p (h x s)"
    and "unreferenced p s"
  shows "unreferenced p (fold h xs s)"
  using assms(2) by (induction xs arbitrary: s) (simp_all add: assms(1))

lemma unreferenced_socket_receive:
  assumes "unreferenced p s"
  shows "unreferenced p (socket_receive env frame s)"
  unfolding socket_receive_def Let_def
proof (rule fold_unreferenced)
  show "unreferenced p (s\<lparr>listeners := k\<rparr>)" for k
    using assms by (simp add: unreferenced_cong [of "s\<lparr>listeners := k\<rparr>" s])
qed (rule unreferenced_run_listener)

lemma unreferenced_advance_clock:
  assumes "unreferenced p s"
  shows "unreferenced p (advance_clock t s)"
proof (cases "t \<le> clock s")
  case True
  then show ?thesis using assms by (simp add: advance_clock_def)
next
  case False
  have "unreferenced p (fold (\<lambda>(d, q). on_timeout q) ts (s\<lparr>timers := k, clock := t\<rparr>))"
    for ts k
  proof (rule fold_unreferenced)
    show "unreferenced p (s\<lparr>timers := k, clock := t\<rparr>)"
      using assms by (simp add: unreferenced_cong [of "s\<lparr>timers := k, clock := t\<rparr>" s])
  qed (auto simp: unreferenced_on_timeout)
  then show ?thesis using False by (simp add: advance_clock_def Let_def)
qed

lemma unreferenced_encrypt_catch:
  "unreferenced p s \<Longrightarrow> unreferenced p (snd (encrypt_catch r content e s))"
  by (auto simp: encrypt_catch_def new_promise_def socket_emit_def Let_def unreferenced_def
      promise_state_def nth_append split: js_error.splits)

lemma unreferenced_encryptMessage:
  assumes "unreferenced p s"
  shows "unreferenced p (snd (encryptMessage env r content s))"
  using assms
  by (simp add: encryptMessage_def case_prod_beta unreferenced_encrypt_catch
      unreferenced_call_manager split: option.splits sum.splits)

text \<open>
  A promise that is unsettled and that no entry of \<open>pendingMessages\<close> refers to stays
  unsettled whatever enters the module: only the functions stored in an entry settle a
  promise.
\<close>

lemma unreferenced_forever:
  assumes "unreferenced p s"
  shows "promise_state (fold (enter env) entries s) p = None"
proof -
  have "unreferenced p (fold (enter env) entries s)"
  proof (rule fold_unreferenced)
    fix x and s :: "('a, 'b) state"
    assume "unreferenced p s"
    then show "unreferenced p (enter env x s)"
      by (cases x)
        (simp_all add: unreferenced_encryptMessage unreferenced_socket_receive
          unreferenced_advance_clock)
  qed (rule assms)
  then show ?thesis by (simp add: unreferenced_def)
qed

lemma two_calls_state:
  "two_calls =
     \<lparr>signalManager = Some [],
      pendingMessages = [''bob-0'' \<mapsto> \<lparr>pm_recipientId = ''bob'', pm_content = ''{b}'', pm_promise = 1\<rparr>],
      listeners = [On_new_pre_key_bundle, On_encrypted_message,
                   Once_pre_key_bundle ''bob'' 0, Once_pre_key_bundle ''bob'' 0],
      timers = [(10000, ''bob-0''), (10000, ''bob-0'')],
      clock = 0,
      promises = [None, None],
      emitted = [Register_public_keys ''keys'',
                 Request_pre_key_bundle ''bob'' (Some ''bob-0''),
                 Request_pre_key_bundle ''bob'' (Some ''bob-0'')],
      dispatched = []\<rparr>"
  by (simp add: two_calls_def eval_defs test_defs)

text \<open>
  C2. Two calls for the same recipient at the same clock reading get the same request
  id, and the second \<open>pendingMessages.set\<close> replaces the entry of the first. From
  then on no entry refers to the first promise: whatever enters the module afterwards,
  in any order, the first promise has no outcome. The second promise is resolved by the
  response, or rejected by the timeout.
\<close>

theorem colliding_request_never_settles:
  "fst (encryptMessage test_env ''bob'' ''{a}'' ready) = Awaiting 0
   \<and> fst (encryptMessage test_env ''bob'' ''{b}'' (snd (encryptMessage test_env ''bob'' ''{a}'' ready)))
       = Awaiting 1
   \<and> request_id ''bob'' (clock ready) =
       request_id ''bob'' (clock (snd (encryptMessage test_env ''bob'' ''{a}'' ready)))
   \<and> (\<forall>entries. promise_state (fold (enter test_env) entries two_calls) 0 = None)
   \<and> promise_state
        (fold (enter test_env) [Frame_arrives (Pre_key_bundle ''bob-0'' ''B''), Time_passes 10000]
           two_calls) 1 = Some (Resolved ''enc:{b}'')
   \<and> promise_state (fold (enter test_env) [Time_passes 10000] two_calls) 1
       = Some (Rejected (JsError ''Timeout requesting pre-key bundle''))"
proof -
  have "unreferenced 0 two_calls"
    by (simp add: two_calls_state unreferenced_def promise_state_def)
  then have 1: "\<forall>entries. promise_state (fold (enter test_env) entries two_calls) 0 = None"
    by (simp add: unreferenced_forever)
  have 2: "fst (encryptMessage test_env ''bob'' ''{a}'' ready) = Awaiting 0"
    by (simp add: eval_defs test_defs)
  have 3: "fst (encryptMessage test_env ''bob'' ''{b}'' (snd (encryptMessage test_env ''bob'' ''{a}'' ready)))
       = Awaiting 1"
    by (simp add: eval_defs test_defs)
  have 4: "request_id ''bob'' (clock ready) =
       request_id ''bob'' (clock (snd (encryptMessage test_env ''bob'' ''{a}'' ready)))"
    by (simp add: eval_defs test_defs)
  have 5: "promise_state
        (fold (enter test_env) [Frame_arrives (Pre_key_bundle ''bob-0'' ''B''), Time_passes 10000]
           two_calls) 1 = Some (Resolved ''enc:{b}'')"
    by (simp add: two_calls_state eval_defs test_defs)
  have 6: "promise_state (fold (enter test_env) [Time_passes 10000] two_calls) 1
       = Some (Rejected (JsError ''Timeout requesting pre-key bundle''))"
    by (simp add: two_calls_state eval_defs test_defs)
  show ?thesis
    by (intro conjI) (rule 1 2 3 4 5 6)+
qed

text \<open>
  C1. Each of the two calls finds no session, returns a pending promise and emits one
  \<open>request-pre-key-bundle\<close> frame, both with the request id \<open>bob-0\<close>. The response
  for \<open>bob-0\<close> arrives while both are pending, and the engine processes the bundle. The
  promise of the first call, made with the content \<open>{a}\<close>, is not resolved: the
  ciphertext delivered is that of \<open>{b}\<close>, to the second promise, the entry is removed,
  and whatever enters the module afterwards the first promise has no outcome.
\<close>

theorem first_request_not_resolved:
  "fst (encryptMessage test_env ''bob'' ''{a}'' ready) = Awaiting 0
   \<and> emitted two_calls =
       [Register_public_keys ''keys'',
        Request_pre_key_bundle ''bob'' (Some ''bob-0''),
        Request_pre_key_bundle ''bob'' (Some ''bob-0'')]
   \<and> sm_processPreKeyBundle test_env [] ''bob'' ''B'' = (Inr (), [''bob''])
   \<and> sm_encryptMessage test_env [''bob''] ''bob'' ''{a}'' = (Inr ''enc:{a}'', [''bob''])
   \<and> promise_state (socket_receive test_env (Pre_key_bundle ''bob-0'' ''B'') two_calls) 0 = None
   \<and> promise_state (socket_receive test_env (Pre_key_bundle ''bob-0'' ''B'') two_calls) 1
       = Some (Resolved ''enc:{b}'')
   \<and> pendingMessages (socket_receive test_env (Pre_key_bundle ''bob-0'' ''B'') two_calls) ''bob-0''
       = None
   \<and> (\<forall>entries.
         promise_state
           (fold (enter test_env) entries
              (socket_receive test_env (Pre_key_bundle ''bob-0'' ''B'') two_calls)) 0 = None)"
proof -
  have "unreferenced 0 two_calls"
    by (simp add: two_calls_state unreferenced_def promise_state_def)
  then have "unreferenced 0 (socket_receive test_env (Pre_key_bundle ''bob-0'' ''B'') two_calls)"
    by (rule unreferenced_socket_receive)
  then have 1: "\<forall>entries.
         promise_state
           (fold (enter test_env) entries
              (socket_receive test_env (Pre_key_bundle ''bob-0'' ''B'') two_calls)) 0 = None"
    by (simp add: unreferenced_forever)
  have 2: "fst (encryptMessage test_env ''bob'' ''{a}'' ready) = Awaiting 0"
    by (simp add: eval_defs test_defs)
  have 3: "emitted two_calls =
       [Register_public_keys ''keys'',
        Request_pre_key_bundle ''bob'' (Some ''bob-0''),
        Request_pre_key_bundle ''bob'' (Some ''bob-0'')]"
    by (simp add: two_calls_state)
  have 4: "sm_processPreKeyBundle test_env [] ''bob'' ''B'' = (Inr (), [''bob''])"
    by (simp add: test_defs)
  have 5: "sm_encryptMessage test_env [''bob''] ''bob'' ''{a}'' = (Inr ''enc:{a}'', [''bob''])"
    by (simp add: test_defs)
  have 6: "promise_state (socket_receive test_env (Pre_key_bundle ''bob-0'' ''B'') two_calls) 0 = None"
    by (simp add: two_calls_state eval_defs test_defs)
  have 7: "promise_state (socket_receive test_env (Pre_key_bundle ''bob-0'' ''B'') two_calls) 1
       = Some (Resolved ''enc:{b}'')"
    by (simp add: two_calls_state eval_defs test_defs)
  have 8: "pendingMessages (socket_receive test_env (Pre_key_bundle ''bob-0'' ''B'') two_calls) ''bob-0''
       = None"
    by (simp add: two_calls_state eval_defs test_defs)
  show ?thesis
    by (intro conjI) (rule 1 2 3 4 5 6 7 8)+
qed

text \<open>
  C3. No response arrives for the two calls, and 10000 ms pass. Both timers run: the
  first rejects the promise of the entry, which is the promise of the second call, and
  deletes the entry; the second finds no entry. The promise of the first call is not
  rejected, and whatever enters the module afterwards it has no outcome.
\<close>

theorem first_request_not_rejected:
  "promise_state two_calls 0 = None
   \<and> timers two_calls = [(10000, ''bob-0''), (10000, ''bob-0'')]
   \<and> promise_state (advance_clock 10000 two_calls) 0 = None
   \<and> promise_state (advance_clock 10000 two_calls) 1
       = Some (Rejected (JsError ''Timeout requesting pre-key bundle''))
   \<and> timers (advance_clock 10000 two_calls) = []
   \<and> pendingMessages (advance_clock 10000 two_calls) ''bob-0'' = None
   \<and> (\<forall>entries.
         promise_state (fold (enter test_env) entries (advance_clock 10000 two_calls)) 0 = None)"
proof -
  have "unreferenced 0 two_calls"
    by (simp add: two_calls_state unreferenced_def promise_state_def)
  then have "unreferenced 0 (advance_clock 10000 two_calls)"
    by (rule unreferenced_advance_clock)
  then have 1: "\<forall>entries.
         promise_state (fold (enter test_env) entries (advance_clock 10000 two_calls)) 0 = None"
    by (simp add: unreferenced_forever)
  have 2: "promise_state two_calls 0 = None"
    by (simp add: two_calls_state promise_state_def)
  have 3: "timers two_calls = [(10000, ''bob-0''), (10000, ''bob-0'')]"
    by (simp add: two_calls_state)
  have 4: "promise_state (advance_clock 10000 two_calls) 0 = None"
    by (simp add: two_calls_state eval_defs)
  have 5: "promise_state (advance_clock 10000 two_calls) 1
       = Some (Rejected (JsError ''Timeout requesting pre-key bundle''))"
    by (simp add: two_calls_state eval_defs)
  have 6: "timers (advance_clock 10000 two_calls) = []"
    by (simp add: two_calls_state eval_defs)
  have 7: "pendingMessages (advance_clock 10000 two_calls) ''bob-0'' = None"
    by (simp add: two_calls_state eval_defs)
  show ?thesis
    by (intro conjI) (rule 1 2 3 4 5 6 7)+
qed

section \<open>The listener in its three parts\<close>

lemma on_pre_key_bundle_parts:
  "on_pre_key_bundle env recipientId requestId b s =
     (case bundle_received env recipientId b s of
        (processed, s1) \<Rightarrow>
          (case bundle_processed env recipientId requestId processed s1 of
             (None, s2) \<Rightarrow> s2
           | (Some (pendingMessage, encrypted), s2) \<Rightarrow>
               bundle_encrypted requestId pendingMessage encrypted s2))"
  by (simp add: on_pre_key_bundle_def bundle_received_def bundle_processed_def
      bundle_encrypted_def split: prod.splits sum.splits option.splits)

text \<open>
  Between the parts of the listener a timer can run. The response for \<open>bob-0\<close>
  arrives at 9999 ms, while the request is pending, and the engine processes the
  bundle. The timer fires at 10000 ms, before the listener goes on: it rejects the
  promise and deletes the entry. The listener then finds no entry and does nothing, so
  the promise stays rejected with the timeout error although the response came in time.
\<close>

lemma timer_fires_while_listener_waits:
  "fst (encryptMessage test_env ''bob'' ''{}'' ready) = Awaiting 0
   \<and> promise_state (advance_clock 9999 (snd (encryptMessage test_env ''bob'' ''{}'' ready))) 0 = None
   \<and> fst (bundle_received test_env ''bob'' ''B''
            (advance_clock 9999 (snd (encryptMessage test_env ''bob'' ''{}'' ready)))) = Inr ()
   \<and> promise_state
        (advance_clock 10000
          (snd (bundle_received test_env ''bob'' ''B''
                 (advance_clock 9999 (snd (encryptMessage test_env ''bob'' ''{}'' ready)))))) 0
       = Some (Rejected (JsError ''Timeout requesting pre-key bundle''))
   \<and> bundle_processed test_env ''bob'' ''bob-0'' (Inr ())
        (advance_clock 10000
          (snd (bundle_received test_env ''bob'' ''B''
                 (advance_clock 9999 (snd (encryptMessage test_env ''bob'' ''{}'' ready))))))
       = (None,
          advance_clock 10000
            (snd (bundle_received test_env ''bob'' ''B''
                   (advance_clock 9999 (snd (encryptMessage test_env ''bob'' ''{}'' ready))))))"
  by (simp add: eval_defs test_defs bundle_received_def bundle_processed_def)

text \<open>
  The two listeners of the colliding calls, taking turns as they do when the engine
  makes them wait: both are called with the response, both go on after
  \<open>processPreKeyBundle\<close> and find the one entry, that of the second call, and both go
  on after \<open>encryptMessage\<close>. The outcome is that of running one after the other:
  the second promise is resolved with the ciphertext of \<open>{b}\<close>, the first has no
  outcome.
\<close>

lemma colliding_listeners_taking_turns:
  "(let s1 = snd (bundle_received test_env ''bob'' ''B'' two_calls);
        s2 = snd (bundle_received test_env ''bob'' ''B'' s1);
        r3 = bundle_processed test_env ''bob'' ''bob-0'' (Inr ()) s2;
        r4 = bundle_processed test_env ''bob'' ''bob-0'' (Inr ()) (snd r3);
        s5 = bundle_encrypted ''bob-0'' (fst (the (fst r3))) (snd (the (fst r3))) (snd r4);
        s6 = bundle_encrypted ''bob-0'' (fst (the (fst r4))) (snd (the (fst r4))) s5
    in fst r3 = Some (\<lparr>pm_recipientId = ''bob'', pm_content = ''{b}'', pm_promise = 1\<rparr>,
                      Inr ''enc:{b}'')
     \<and> fst r4 = fst r3
     \<and> promise_state s6 0 = None
     \<and> promise_state s6 1 = Some (Resolved ''enc:{b}'')
     \<and> pendingMessages s6 ''bob-0'' = None)"
  by (simp add: two_calls_state eval_defs test_defs bundle_received_def bundle_processed_def
      bundle_encrypted_def)

section \<open>Files\<close>

lemma take_random_length: "length (fst (take_random n rnd)) = n"
  by (simp add: take_random_def)

lemma encryptFile_result:
  assumes "file_readable file"
  shows "encryptFile gcm file channelId rnd =
     (Inr \<lparr>pkg_encryptedFile =
             \<lparr>blob_data = gcm_encrypt gcm (map rnd [0..<32]) (map (\<lambda>i. rnd (i + 32)) [0..<12])
                            (file_data file),
              blob_type = ''application/octet-stream''\<rparr>,
           pkg_fileName = file_name file,
           pkg_fileType = file_type file,
           pkg_fileSize = length (file_data file),
           pkg_key = map rnd [0..<32],
           pkg_iv = map (\<lambda>i. rnd (i + 32)) [0..<12],
           pkg_channelId = channelId\<rparr>,
      (\<lambda>i. rnd (i + 44)))"
  using assms
  by (simp add: encryptFile_def generateKey_def take_random_def exportKey_def getRandomValues_def
      readAsArrayBuffer_def subtle_encrypt_def file_size_def add.assoc)

lemma encryptFile_unreadable:
  assumes "\<not> file_readable file"
  shows "encryptFile gcm file channelId rnd = (Inl Never_settles, (\<lambda>i. rnd (i + 32)))"
  using assms
  by (simp add: encryptFile_def generateKey_def take_random_def exportKey_def
      readAsArrayBuffer_def)

lemma decryptFile_result:
  assumes "length decryptedKey = 32"
  shows "decryptFile gcm fileData decryptedKey =
     (case gcm_decrypt gcm decryptedKey (pkg_iv fileData) (blob_data (pkg_encryptedFile fileData)) of
        None \<Rightarrow> Inl OperationError
      | Some plain \<Rightarrow> Inr \<lparr>blob_data = plain, blob_type = pkg_fileType fileData\<rparr>)"
  using assms
  by (simp add: decryptFile_def importKey_def subtle_decrypt_def split: option.splits)

lemma map_shifted: "map (\<lambda>i. f (i + k)) [0..<n] = map f [k..<k + n]"
  by (induction n) (simp_all add: add.commute)

text \<open>
  C9, as the claim states it, fails: when the file cannot be read, the promise of lines
  162-166 is never settled, and neither is the call of \<open>encryptFile\<close>. It has drawn the
  32 bytes of the key by then and draws no initialisation vector; no package is
  returned.
\<close>

theorem unreadable_file_gives_no_package:
  "file_readable (test_file\<lparr>file_readable := False\<rparr>) = False
   \<and> fst (encryptFile test_gcm (test_file\<lparr>file_readable := False\<rparr>) ''general'' test_entropy)
       = Inl Never_settles
   \<and> snd (encryptFile test_gcm (test_file\<lparr>file_readable := False\<rparr>) ''general'' test_entropy) 0
       = test_entropy 32"
  by (simp add: encryptFile_unreadable)

text \<open>
  C9, amended. Every call of \<open>encryptFile\<close> on a file that can be read returns a
  package: the key is the 32 bytes (256 bits) it draws from the random source for an
  extractable AES-GCM key, exported raw; the initialisation vector is the next 12 bytes
  (96 bits); the ciphertext is the AES-GCM encryption of the file's bytes under that key
  and vector; name, type, size and channel id are those of the call. The random source is
  left advanced by the 44 bytes drawn, so the next call draws other bytes.
\<close>

theorem encryptFile_package:
  assumes readable: "file_readable file"
  shows "fst (encryptFile gcm file channelId rnd) =
     Inr \<lparr>pkg_encryptedFile =
            \<lparr>blob_data = gcm_encrypt gcm (map rnd [0..<32]) (map rnd [32..<44]) (file_data file),
             blob_type = ''application/octet-stream''\<rparr>,
          pkg_fileName = file_name file,
          pkg_fileType = file_type file,
          pkg_fileSize = length (file_data file),
          pkg_key = map rnd [0..<32],
          pkg_iv = map rnd [32..<44],
          pkg_channelId = channelId\<rparr>
   \<and> length (map rnd [0..<32]) * 8 = 256
   \<and> length (map rnd [32..<44]) * 8 = 96
   \<and> snd (encryptFile gcm file channelId rnd) = (\<lambda>i. rnd (i + 44))
   \<and> fst (generateKey 256 True [Encrypt, Decrypt] rnd) =
       \<lparr>key_bytes = map rnd [0..<32], key_extractable = True, key_usages = [Encrypt, Decrypt]\<rparr>"
proof -
  have "map (\<lambda>i. rnd (i + 32)) [0..<12] = map rnd [32..<44]"
    using map_shifted [of rnd 32 12] by simp
  then show ?thesis
    by (simp add: encryptFile_result [OF readable] generateKey_def take_random_def)
qed

theorem encryptFile_package_witness:
  "file_readable test_file
   \<and> pkg_key (projr (fst (encryptFile test_gcm test_file ''general'' test_entropy))) =
       map test_entropy [0..<32]
   \<and> length (pkg_key (projr (fst (encryptFile test_gcm test_file ''general'' test_entropy)))) = 32
   \<and> pkg_iv (projr (fst (encryptFile test_gcm test_file ''general'' test_entropy))) =
       map test_entropy [32..<44]
   \<and> length (pkg_iv (projr (fst (encryptFile test_gcm test_file ''general'' test_entropy)))) = 12
   \<and> blob_data (pkg_encryptedFile
        (projr (fst (encryptFile test_gcm test_file ''general'' test_entropy)))) =
       gcm_encrypt test_gcm (map test_entropy [0..<32]) (map test_entropy [32..<44]) [104, 105]
   \<and> pkg_fileName (projr (fst (encryptFile test_gcm test_file ''general'' test_entropy))) = ''a.txt''
   \<and> pkg_fileType (projr (fst (encryptFile test_gcm test_file ''general'' test_entropy))) = ''text/plain''
   \<and> pkg_fileSize (projr (fst (encryptFile test_gcm test_file ''general'' test_entropy))) = 2
   \<and> pkg_channelId (projr (fst (encryptFile test_gcm test_file ''general'' test_entropy))) = ''general''
   \<and> pkg_key (projr (fst (encryptFile test_gcm test_file ''general''
        (snd (encryptFile test_gcm test_file ''general'' test_entropy))))) =
       map test_entropy [44..<76]"
proof -
  have h: "file_readable test_file" by (simp add: test_file_def)
  have f: "file_data test_file = [104, 105]" "file_name test_file = ''a.txt''"
    "file_type test_file = ''text/plain''"
    by (simp_all add: test_file_def)
  have s: "map (\<lambda>i. test_entropy (i + 44)) [0..<32] = map test_entropy [44..<76]"
    using map_shifted [of test_entropy 44 32] by simp
  note r = encryptFile_package [OF h, of test_gcm "''general''" test_entropy]
  note r2 = encryptFile_package [OF h, of test_gcm "''general''" "\<lambda>i. test_entropy (i + 44)"]
  show ?thesis
    using r [THEN conjunct1] r2 [THEN conjunct1]
      r [THEN conjunct2, THEN conjunct2, THEN conjunct2, THEN conjunct1]
    by (simp add: h f s)
qed

lemma sum_list_update_same:
  fixes xs :: "byte list"
  shows "i < length xs \<Longrightarrow> sum_list (xs[i := b]) = sum_list xs \<Longrightarrow> b = xs ! i"
proof (induction xs arbitrary: i)
  case Nil
  then show ?case by simp
next
  case (Cons x xs)
  then show ?case by (cases i) auto
qed

lemma test_gcm_decrypts_own:
  "gcm_decrypt test_gcm k iv (gcm_encrypt test_gcm k iv plain) = Some plain"
  by (simp add: test_gcm_def test_gcm_encrypt_def test_gcm_decrypt_def)

lemma test_gcm_rejects_flipped:
  assumes "i < length (gcm_encrypt test_gcm k iv plain)"
    and "b \<noteq> gcm_encrypt test_gcm k iv plain ! i"
  shows "gcm_decrypt test_gcm k iv ((gcm_encrypt test_gcm k iv plain)[i := b]) = None"
proof -
  define t where "t = sum_list (k @ iv @ plain)"
  have enc: "gcm_encrypt test_gcm k iv plain = plain @ [t]"
    by (simp add: test_gcm_def test_gcm_encrypt_def t_def)
  have dec: "gcm_decrypt test_gcm k iv (xs @ [x]) =
               (if x = sum_list (k @ iv @ xs) then Some xs else None)" for xs x
    by (simp add: test_gcm_def test_gcm_decrypt_def)
  show ?thesis
  proof (cases "i < length plain")
    case True
    have "b \<noteq> plain ! i"
      using assms(2) True by (simp add: enc nth_append)
    then have "sum_list (plain[i := b]) \<noteq> sum_list plain"
      using sum_list_update_same [OF True] by blast
    then have "t \<noteq> sum_list (k @ iv @ plain[i := b])"
      by (simp add: t_def)
    moreover have "(plain @ [t])[i := b] = plain[i := b] @ [t]"
      using True by (simp add: list_update_append)
    ultimately show ?thesis
      by (simp only: enc dec if_False)
  next
    case False
    then have i: "i = length plain"
      using assms(1) by (simp add: enc)
    have "b \<noteq> t"
      using assms(2) by (simp add: enc i)
    moreover have "(plain @ [t])[i := b] = plain @ [b]"
      by (simp add: i)
    ultimately show ?thesis
      by (simp only: enc dec t_def if_False)
  qed
qed

text \<open>
  C8. AES-GCM is the platform's; the statement is about the package that carries its
  output. If, under the key of the package, the cipher decrypts what it encrypted and
  rejects every text that differs from an encrypted one in a single byte, then
  \<open>decryptFile\<close> with the package's key returns the bytes of the file, as a blob of the
  file's type, and fails with \<open>OperationError\<close> on the package with any single byte of
  its ciphertext replaced by another.
\<close>

theorem file_round_trip:
  assumes package: "encryptFile gcm file channelId rnd = (Inr fileData, rnd')"
    and correct: "\<forall>iv plain.
        gcm_decrypt gcm (pkg_key fileData) iv (gcm_encrypt gcm (pkg_key fileData) iv plain) = Some plain"
    and authentic: "\<forall>iv plain i b.
        i < length (gcm_encrypt gcm (pkg_key fileData) iv plain)
        \<and> b \<noteq> gcm_encrypt gcm (pkg_key fileData) iv plain ! i \<longrightarrow>
        gcm_decrypt gcm (pkg_key fileData) iv ((gcm_encrypt gcm (pkg_key fileData) iv plain)[i := b]) = None"
  shows "decryptFile gcm fileData (pkg_key fileData) =
           Inr \<lparr>blob_data = file_data file, blob_type = file_type file\<rparr>
       \<and> (\<forall>i b. i < length (blob_data (pkg_encryptedFile fileData))
              \<and> b \<noteq> blob_data (pkg_encryptedFile fileData) ! i \<longrightarrow>
            decryptFile gcm (tamper i b fileData) (pkg_key fileData) = Inl OperationError)"
proof -
  let ?k = "map rnd [0..<32]"
  let ?iv = "map (\<lambda>i. rnd (i + 32)) [0..<12]"
  have readable: "file_readable file"
    using package encryptFile_unreadable [of "file" gcm channelId rnd]
    by (cases "file_readable file") auto
  have fd: "fileData =
     \<lparr>pkg_encryptedFile =
             \<lparr>blob_data = gcm_encrypt gcm ?k ?iv (file_data file),
              blob_type = ''application/octet-stream''\<rparr>,
           pkg_fileName = file_name file,
           pkg_fileType = file_type file,
           pkg_fileSize = length (file_data file),
           pkg_key = ?k,
           pkg_iv = ?iv,
           pkg_channelId = channelId\<rparr>"
    using package by (simp add: encryptFile_result [OF readable])
  have len: "length (pkg_key fileData) = 32" by (simp add: fd)
  have key: "pkg_key fileData = ?k" by (simp add: fd)
  have 1: "decryptFile gcm fileData (pkg_key fileData) =
           Inr \<lparr>blob_data = file_data file, blob_type = file_type file\<rparr>"
    using correct [rule_format, of ?iv "file_data file"]
    by (simp add: decryptFile_result [OF len]) (simp add: fd)
  have 2: "decryptFile gcm (tamper i b fileData) (pkg_key fileData) = Inl OperationError"
    if "i < length (blob_data (pkg_encryptedFile fileData))"
      and "b \<noteq> blob_data (pkg_encryptedFile fileData) ! i" for i b
  proof -
    have "gcm_decrypt gcm (pkg_key fileData) ?iv ((gcm_encrypt gcm (pkg_key fileData) ?iv (file_data file))[i := b]) = None"
      using authentic [rule_format, of i ?iv "file_data file" b] that by (simp add: fd)
    then show ?thesis
      by (simp add: decryptFile_result [OF len] tamper_def) (simp add: fd)
  qed
  show ?thesis using 1 2 by blast
qed

theorem file_round_trip_witness:
  "decryptFile test_gcm (projr (fst (encryptFile test_gcm test_file ''general'' test_entropy)))
     (pkg_key (projr (fst (encryptFile test_gcm test_file ''general'' test_entropy))))
     = Inr \<lparr>blob_data = [104, 105], blob_type = ''text/plain''\<rparr>
   \<and> blob_data (pkg_encryptedFile (projr (fst (encryptFile test_gcm test_file ''general'' test_entropy)))) ! 0
       = 104
   \<and> decryptFile test_gcm (tamper 0 105 (projr (fst (encryptFile test_gcm test_file ''general'' test_entropy))))
     (pkg_key (projr (fst (encryptFile test_gcm test_file ''general'' test_entropy))))
     = Inl OperationError"
proof -
  define fileData where "fileData = projr (fst (encryptFile test_gcm test_file ''general'' test_entropy))"
  have h: "file_readable test_file" by (simp add: test_file_def)
  have f: "file_data test_file = [104, 105]" "file_type test_file = ''text/plain''"
    by (simp_all add: test_file_def)
  have p: "encryptFile test_gcm test_file ''general'' test_entropy =
             (Inr fileData, snd (encryptFile test_gcm test_file ''general'' test_entropy))"
    by (simp add: fileData_def encryptFile_result [OF h])
  have c: "\<forall>iv plain.
        gcm_decrypt test_gcm (pkg_key fileData) iv (gcm_encrypt test_gcm (pkg_key fileData) iv plain) = Some plain"
    by (simp add: test_gcm_decrypts_own)
  have a: "\<forall>iv plain i b.
        i < length (gcm_encrypt test_gcm (pkg_key fileData) iv plain)
        \<and> b \<noteq> gcm_encrypt test_gcm (pkg_key fileData) iv plain ! i \<longrightarrow>
        gcm_decrypt test_gcm (pkg_key fileData) iv ((gcm_encrypt test_gcm (pkg_key fileData) iv plain)[i := b]) = None"
    using test_gcm_rejects_flipped by blast
  have d: "blob_data (pkg_encryptedFile fileData) = [104, 105, sum_list (pkg_key fileData @ pkg_iv fileData @ [104, 105])]"
    by (simp add: fileData_def encryptFile_result [OF h] test_gcm_def test_gcm_encrypt_def f)
  note r = file_round_trip [OF p c a]
  have "decryptFile test_gcm (tamper 0 105 fileData) (pkg_key fileData) = Inl OperationError"
    using r [THEN conjunct2, rule_format, of 0 105] by (simp add: d)
  then show ?thesis
    using r [THEN conjunct1] by (simp add: fileData_def [symmetric] d f)
qed

end
